theory Spec2Isabelle
  imports Complex_Main "HOL-Library.AList"
begin

section \<open>Exceptions and values\<close>

text \<open>
  The Python exceptions that the modelled functions can raise. \<open>Abort n\<close> is the HTTP
  exception raised by \<^verbatim>\<open>flask.abort(n)\<close>: \<open>Abort 400\<close> is the client error (bad request),
  \<open>Abort 404\<close> is not-found. A function that mutates objects returns its outcome together
  with the objects as they are when it returns or raises.
\<close>

datatype error =
    KeyError
  | AttributeError
  | TypeError
  | ValueError
  | AssertionError
  | BadValueError
  | HTTPError
  | URLError
  | OverflowError
  | Abort nat

text \<open>Values of JSON origin, as Python sees them after decoding.\<close>

datatype pyval =
    PyNone
  | PyBool bool
  | PyInt int
  | PyFloat real
  | PyStr string
  | PyOther

section \<open>model.py: rooms, devices and command dispatch\<close>

text \<open>
  Entities are identified by the string id of their datastore key. \<open>last_update\<close>
  (stamped by the datastore on every put) is not part of the model.
\<close>

record Room =
  room_owner :: string
  room_name :: "string option"
  room_devices :: "string list"

datatype device_class = Device_class | Switch_class

record Device =
  device_class :: device_class
  device_key :: string
  device_owner :: string
  device_name :: "string option"
  device_room :: "string option"
  switch_state :: "bool option"

text \<open>
  The datastore: the persisted rooms and devices, and the sequence of \<^verbatim>\<open>put()\<close> calls
  made so far. \<^verbatim>\<open>Room.get_by_id\<close> is the lookup in \<open>rooms\<close>.
\<close>

datatype put_call = Put_room string | Put_device string

record datastore =
  rooms :: "string \<rightharpoonup> Room"
  devices :: "string \<rightharpoonup> Device"
  writes :: "put_call list"

text \<open>
  \<^verbatim>\<open>Device.set_room\<close>: abort(404) when the room does not exist; otherwise append the
  device's key to the room's list and put the room, then set the device's room and put
  the device.
\<close>

definition set_room ::
  "string \<Rightarrow> Device \<Rightarrow> datastore \<Rightarrow> (error + unit) \<times> Device \<times> datastore" where
  "set_room room_id self ds =
     (case rooms ds room_id of
        None \<Rightarrow> (Inl (Abort 404), self, ds)
      | Some room \<Rightarrow>
          let room' = room\<lparr>room_devices := room_devices room @ [device_key self]\<rparr>;
              ds1 = ds\<lparr>rooms := (rooms ds)(room_id \<mapsto> room'),
                       writes := writes ds @ [Put_room room_id]\<rparr>;
              self' = self\<lparr>device_room := Some room_id\<rparr>;
              ds2 = ds1\<lparr>devices := (devices ds1)(device_key self \<mapsto> self'),
                        writes := writes ds1 @ [Put_device (device_key self)]\<rparr>
          in (Inr (), self', ds2))"

text \<open>
  What \<^verbatim>\<open>getattr(self, func_name, None)\<close> finds on a device. \<open>Flagged h\<close> is a method
  that went through the \<^verbatim>\<open>Command\<close> decorator, which sets \<^verbatim>\<open>is_command = True\<close> on it;
  \<open>Unflagged\<close> is any other attribute value that is not \<^verbatim>\<open>None\<close> (a method without the
  decorator, a string, a key): reading \<^verbatim>\<open>is_command\<close> from it raises AttributeError.
  The result \<open>None\<close> stands for an absent attribute and for an attribute whose value
  is \<^verbatim>\<open>None\<close>, which \<^verbatim>\<open>getattr\<close> with default \<^verbatim>\<open>None\<close> does not tell apart.
  The attributes that the classes of model.py inherit from the datastore library are
  not listed in the source; \<open>inherited\<close> says which names they are.
\<close>

datatype handler = Set_room | Turn_on | Turn_off

datatype attribute = Flagged handler | Unflagged

definition getattr_device :: "(string \<Rightarrow> bool) \<Rightarrow> Device \<Rightarrow> string \<Rightarrow> attribute option" where
  "getattr_device inherited self func_name =
     (if func_name = ''set_room'' then Some (Flagged Set_room)
      else if func_name = ''turn_on'' \<and> device_class self = Switch_class
        then Some (Flagged Turn_on)
      else if func_name = ''turn_off'' \<and> device_class self = Switch_class
        then Some (Flagged Turn_off)
      else if func_name = ''handle_event'' \<or> func_name = ''handle_command''
              \<or> func_name = ''to_dict'' then Some Unflagged
      else if func_name = ''owner'' then Some Unflagged
      else if func_name = ''name''
        then (case device_name self of None \<Rightarrow> None | Some _ \<Rightarrow> Some Unflagged)
      else if func_name = ''room''
        then (case device_room self of None \<Rightarrow> None | Some _ \<Rightarrow> Some Unflagged)
      else if func_name = ''state'' \<and> device_class self = Switch_class
        then (case switch_state self of None \<Rightarrow> None | Some _ \<Rightarrow> Some Unflagged)
      else if inherited func_name then Some Unflagged
      else None)"

text \<open>
  \<^verbatim>\<open>func(**command)\<close>: the remaining entries of the envelope are the keyword
  arguments. \<^verbatim>\<open>set_room\<close> takes exactly \<^verbatim>\<open>room_id\<close>, \<^verbatim>\<open>turn_on\<close> and \<^verbatim>\<open>turn_off\<close> take
  none and do nothing; any other set of keywords is a TypeError of the call.
\<close>

definition call_handler ::
  "handler \<Rightarrow> (string \<times> string) list \<Rightarrow> Device \<Rightarrow> datastore
     \<Rightarrow> (error + unit) \<times> Device \<times> datastore" where
  "call_handler h kwargs self ds =
     (case h of
        Set_room \<Rightarrow>
          (case kwargs of
             [(k, room_id)] \<Rightarrow>
               if k = ''room_id'' then set_room room_id self ds else (Inl TypeError, self, ds)
           | _ \<Rightarrow> (Inl TypeError, self, ds))
      | Turn_on \<Rightarrow> (if kwargs = [] then (Inr (), self, ds) else (Inl TypeError, self, ds))
      | Turn_off \<Rightarrow> (if kwargs = [] then (Inr (), self, ds) else (Inl TypeError, self, ds)))"

text \<open>
  \<^verbatim>\<open>Device.handle_command\<close>. The envelope is a dictionary from names to strings, given
  as an association list without repeated keys. \<^verbatim>\<open>command.pop('command', None)\<close> yields
  \<^verbatim>\<open>None\<close> when the key is missing, and \<^verbatim>\<open>getattr\<close> with the name \<^verbatim>\<open>None\<close> is a TypeError.
\<close>

definition handle_command ::
  "(string \<Rightarrow> bool) \<Rightarrow> (string \<times> string) list \<Rightarrow> Device \<Rightarrow> datastore
     \<Rightarrow> (error + unit) \<times> Device \<times> datastore" where
  "handle_command inherited command self ds =
     (case map_of command ''command'' of
        None \<Rightarrow> (Inl TypeError, self, ds)
      | Some func_name \<Rightarrow>
          (case getattr_device inherited self func_name of
             None \<Rightarrow> (Inl (Abort 400), self, ds)
           | Some Unflagged \<Rightarrow> (Inl AttributeError, self, ds)
           | Some (Flagged h) \<Rightarrow>
               call_handler h (AList.delete ''command'' command) self ds))"

section \<open>devices/zwave.py: driver registry\<close>

text \<open>
  A driver class is known by its \<^verbatim>\<open>__name__\<close> and by what its \<^verbatim>\<open>get_capabilities\<close>
  returns. The base class \<^verbatim>\<open>Driver\<close> returns the empty list. A driver instance is the class
  bound to the device that asked for it, so it is represented by its class.
\<close>

record driver_class =
  class_name :: string
  get_capabilities :: "string list"

definition Driver :: driver_class where
  "Driver = \<lparr>class_name = ''Driver'', get_capabilities = []\<rparr>"

text \<open>\<^verbatim>\<open>'%s' % x\<close> for a string property: the string itself, or \<^verbatim>\<open>None\<close> spelled out.\<close>

definition str :: "string option \<Rightarrow> string" where
  "str x = (case x of None \<Rightarrow> ''None'' | Some s \<Rightarrow> s)"

definition driver_key :: "string option \<Rightarrow> string option \<Rightarrow> string option \<Rightarrow> string" where
  "driver_key manufacturer_id product_type product_id =
     str manufacturer_id @ ''-'' @ str product_type @ ''-'' @ str product_id"

text \<open>\<^verbatim>\<open>register\<close>: the decorator stores the class under the key, replacing an earlier one.\<close>

definition register ::
  "string option \<Rightarrow> string option \<Rightarrow> string option \<Rightarrow> driver_class
     \<Rightarrow> (string \<rightharpoonup> driver_class) \<Rightarrow> (string \<rightharpoonup> driver_class)" where
  "register manufacturer_id product_type product_id cls ZWAVE_DRIVERS =
     ZWAVE_DRIVERS(driver_key manufacturer_id product_type product_id \<mapsto> cls)"

text \<open>\<^verbatim>\<open>get_driver\<close>: \<^verbatim>\<open>ZWAVE_DRIVERS.get(key, Driver)\<close>.\<close>

definition get_driver ::
  "(string \<rightharpoonup> driver_class) \<Rightarrow> string option \<Rightarrow> string option \<Rightarrow> string option
     \<Rightarrow> driver_class" where
  "get_driver ZWAVE_DRIVERS manufacturer_id product_type product_id =
     (case ZWAVE_DRIVERS (driver_key manufacturer_id product_type product_id) of
        None \<Rightarrow> Driver
      | Some cls \<Rightarrow> cls)"

section \<open>devices/zwave.py: the device and its command class values\<close>

record CommandClassValue =
  ccv_command_class :: "string option"
  ccv_index :: "int option"
  ccv_value :: pyval
  ccv_read_only :: "bool option"
  ccv_units :: "string option"
  ccv_genre :: "string option"
  ccv_label :: "string option"
  ccv_value_id :: "int option"
  ccv_type :: "string option"

text \<open>\<^verbatim>\<open>CommandClassValue(command_class=..., index=...)\<close>: every other property unset.\<close>

definition new_CommandClassValue :: "string \<Rightarrow> int \<Rightarrow> CommandClassValue" where
  "new_CommandClassValue command_class index =
     \<lparr>ccv_command_class = Some command_class, ccv_index = Some index, ccv_value = PyNone,
      ccv_read_only = None, ccv_units = None, ccv_genre = None, ccv_label = None,
      ccv_value_id = None, ccv_type = None\<rparr>"

record ZWaveDevice =
  zwave_room :: "string option"
  zwave_node_id :: "int option"
  zwave_home_id :: "int option"
  zwave_command_class_values :: "CommandClassValue list"
  zwave_node_type :: "string option"
  zwave_node_name :: "string option"
  zwave_manufacturer_name :: "string option"
  zwave_manufacturer_id :: "string option"
  zwave_product_name :: "string option"
  zwave_product_type :: "string option"
  zwave_product_id :: "string option"
  zwave_state :: "bool option"
  zwave_driver :: "driver_class option"

text \<open>
  The \<^verbatim>\<open>driver\<close> property of \<^verbatim>\<open>ZWaveDevice\<close>. The cached driver is returned as it is.
  Otherwise the class is looked up with \<^verbatim>\<open>ZWAVE_DRIVERS.get(key, None)\<close> and the lookup is
  logged with \<^verbatim>\<open>_driver.__name__\<close>; the arguments of the logging call are evaluated
  before the test \<^verbatim>\<open>_driver is None\<close>, and \<^verbatim>\<open>None\<close> has no attribute \<^verbatim>\<open>__name__\<close>.
  The result carries the device (with its cache) and the lines logged.
\<close>

definition dunder_name :: "driver_class option \<Rightarrow> error + string" where
  "dunder_name cls = (case cls of None \<Rightarrow> Inl AttributeError | Some c \<Rightarrow> Inr (class_name c))"

definition driver ::
  "(string \<rightharpoonup> driver_class) \<Rightarrow> ZWaveDevice
     \<Rightarrow> (error + driver_class) \<times> ZWaveDevice \<times> string list" where
  "driver ZWAVE_DRIVERS self =
     (case zwave_driver self of
        Some d \<Rightarrow> (Inr d, self, [])
      | None \<Rightarrow>
          let key = driver_key (zwave_manufacturer_id self) (zwave_product_type self)
                      (zwave_product_id self);
              found = ZWAVE_DRIVERS key
          in (case dunder_name found of
                Inl e \<Rightarrow> (Inl e, self, [])
              | Inr n \<Rightarrow>
                  let logged = [''ZWave driver for '' @ key @ '' = '' @ n]
                  in (case found of
                        None \<Rightarrow> (Inr Driver, self, logged)
                      | Some cls \<Rightarrow> (Inr cls, self\<lparr>zwave_driver := Some cls\<rparr>, logged))))"

text \<open>\<^verbatim>\<open>ZWaveDevice.get_capabilities\<close>: the capabilities of the resolved driver.\<close>

definition device_get_capabilities ::
  "(string \<rightharpoonup> driver_class) \<Rightarrow> ZWaveDevice
     \<Rightarrow> (error + string list) \<times> ZWaveDevice \<times> string list" where
  "device_get_capabilities ZWAVE_DRIVERS self =
     (case driver ZWAVE_DRIVERS self of
        (Inl e, self', logged) \<Rightarrow> (Inl e, self', logged)
      | (Inr d, self', logged) \<Rightarrow> (Inr (get_capabilities d), self', logged))"

text \<open>
  \<^verbatim>\<open>_command_class_value\<close>: the loop returns the first entry with the given command class
  and index; when there is none a new entry is appended and returned. The entry is
  returned by reference, which is its position in the list here.
\<close>

fun find_ccv :: "string \<Rightarrow> int \<Rightarrow> CommandClassValue list \<Rightarrow> nat option" where
  "find_ccv command_class index [] = None"
| "find_ccv command_class index (ccv # rest) =
     (if ccv_command_class ccv = Some command_class \<and> ccv_index ccv = Some index
      then Some 0
      else map_option Suc (find_ccv command_class index rest))"

definition command_class_value :: "string \<Rightarrow> int \<Rightarrow> ZWaveDevice \<Rightarrow> nat \<times> ZWaveDevice" where
  "command_class_value command_class index self =
     (case find_ccv command_class index (zwave_command_class_values self) of
        Some i \<Rightarrow> (i, self)
      | None \<Rightarrow>
          (length (zwave_command_class_values self),
           self\<lparr>zwave_command_class_values :=
                  zwave_command_class_values self
                    @ [new_CommandClassValue command_class index]\<rparr>))"

text \<open>
  The \<^verbatim>\<open>valueId\<close> dictionary of a notification has the twelve keys of the protocol, each
  present or not. The four keys that \<^verbatim>\<open>handle_event\<close> pops and the three it deletes must
  be present (KeyError otherwise); \<^verbatim>\<open>value\<close>, \<^verbatim>\<open>units\<close>, \<^verbatim>\<open>genre\<close>, \<^verbatim>\<open>label\<close> and \<^verbatim>\<open>type\<close> are
  handed to \<^verbatim>\<open>populate\<close> when present.
\<close>

record ValueId =
  v_commandClass :: "string option"
  v_index :: "int option"
  v_readOnly :: "bool option"
  v_id :: "int option"
  v_homeId :: "int option"
  v_nodeId :: "int option"
  v_instance :: "int option"
  v_value :: "pyval option"
  v_units :: "string option"
  v_genre :: "string option"
  v_label :: "string option"
  v_type :: "string option"

record Event =
  notificationType :: "string option"
  homeId :: "int option"
  nodeId :: "int option"
  valueId :: "ValueId option"
  node_type :: "string option"
  node_name :: "string option"
  manufacturer_name :: "string option"
  manufacturer_id :: "string option"
  product_name :: "string option"
  product_type :: "string option"
  product_id :: "string option"

text \<open>
  \<^verbatim>\<open>ccv.populate(**value)\<close> after the pops and deletions: \<^verbatim>\<open>read_only\<close> and \<^verbatim>\<open>value_id\<close>
  are always set, the other properties only when their key is in the dictionary.
\<close>

definition populate :: "bool \<Rightarrow> int \<Rightarrow> ValueId \<Rightarrow> CommandClassValue \<Rightarrow> CommandClassValue" where
  "populate read_only value_id v ccv =
     ccv\<lparr>ccv_read_only := Some read_only,
         ccv_value_id := Some value_id,
         ccv_value := (case v_value v of None \<Rightarrow> ccv_value ccv | Some x \<Rightarrow> x),
         ccv_units := (case v_units v of None \<Rightarrow> ccv_units ccv | Some x \<Rightarrow> Some x),
         ccv_genre := (case v_genre v of None \<Rightarrow> ccv_genre ccv | Some x \<Rightarrow> Some x),
         ccv_label := (case v_label v of None \<Rightarrow> ccv_label ccv | Some x \<Rightarrow> Some x),
         ccv_type := (case v_type v of None \<Rightarrow> ccv_type ccv | Some x \<Rightarrow> Some x)\<rparr>"

text \<open>
  \<^verbatim>\<open>ZWaveDevice.lights\<close>: nothing when the device has no room (\<^verbatim>\<open>None\<close> or the empty
  string) or when the room does not exist; otherwise \<^verbatim>\<open>set_lights(state)\<close> is called on
  the room. \<^verbatim>\<open>Room.set_lights\<close> belongs to a module outside this development: the call is
  recorded, with the room's id and the state passed. The decorator \<^verbatim>\<open>rest.command\<close>, also
  from outside, is taken to leave the method callable as it is written.
\<close>

datatype room_call = Set_lights string pyval

definition lights :: "(string \<rightharpoonup> 'r) \<Rightarrow> pyval \<Rightarrow> ZWaveDevice \<Rightarrow> room_call list" where
  "lights room_store state self =
     (case zwave_room self of
        None \<Rightarrow> []
      | Some room_id \<Rightarrow>
          if room_id = [] then []
          else (case room_store room_id of
                  None \<Rightarrow> []
                | Some room_obj \<Rightarrow> [Set_lights room_id state]))"

text \<open>
  The branch of \<^verbatim>\<open>handle_event\<close> for \<^verbatim>\<open>ValueAdded\<close> and \<^verbatim>\<open>ValueChanged\<close>, in the order of
  the source: the pops of \<^verbatim>\<open>commandClass\<close>, \<^verbatim>\<open>index\<close>, \<^verbatim>\<open>readOnly\<close> and \<^verbatim>\<open>id\<close>, the deletions
  of \<^verbatim>\<open>homeId\<close>, \<^verbatim>\<open>nodeId\<close> and \<^verbatim>\<open>instance\<close>, the upsert, and for the binary sensor class
  the call of \<^verbatim>\<open>lights(value['value'])\<close>.
\<close>

definition value_changed ::
  "(string \<rightharpoonup> 'r) \<Rightarrow> Event \<Rightarrow> ZWaveDevice
     \<Rightarrow> (error + unit) \<times> ZWaveDevice \<times> room_call list" where
  "value_changed room_store event self =
     (case valueId event of
        None \<Rightarrow> (Inl KeyError, self, [])
      | Some v \<Rightarrow>
     (case v_commandClass v of
        None \<Rightarrow> (Inl KeyError, self, [])
      | Some command_class \<Rightarrow>
     (case v_index v of
        None \<Rightarrow> (Inl KeyError, self, [])
      | Some index \<Rightarrow>
     (case v_readOnly v of
        None \<Rightarrow> (Inl KeyError, self, [])
      | Some read_only \<Rightarrow>
     (case v_id v of
        None \<Rightarrow> (Inl KeyError, self, [])
      | Some value_id \<Rightarrow>
          if v_homeId v = None \<or> v_nodeId v = None \<or> v_instance v = None
          then (Inl KeyError, self, [])
          else
            (case command_class_value command_class index self of
               (i, self1) \<Rightarrow>
                 let values = zwave_command_class_values self1;
                     self2 = self1\<lparr>zwave_command_class_values :=
                               values[i := populate read_only value_id v (values ! i)]\<rparr>
                 in if command_class = ''COMMAND_CLASS_SENSOR_BINARY''
                    then (case v_value v of
                            None \<Rightarrow> (Inl KeyError, self2, [])
                          | Some state \<Rightarrow> (Inr (), self2, lights room_store state self2))
                    else (Inr (), self2, [])))))))"

text \<open>
  The branch for \<^verbatim>\<open>NodeInfoUpdate\<close>: seven assignments in the order of the source, each
  of which raises KeyError when its key is missing, after the earlier ones were made.
\<close>

definition assign ::
  "'v option \<Rightarrow> ('v option \<Rightarrow> ZWaveDevice \<Rightarrow> ZWaveDevice)
     \<Rightarrow> (error + unit) \<times> ZWaveDevice \<Rightarrow> (error + unit) \<times> ZWaveDevice" where
  "assign item setter r =
     (case r of
        (Inl e, self) \<Rightarrow> (Inl e, self)
      | (Inr u, self) \<Rightarrow>
          (case item of
             None \<Rightarrow> (Inl KeyError, self)
           | Some x \<Rightarrow> (Inr (), setter (Some x) self)))"

definition node_info_update :: "Event \<Rightarrow> ZWaveDevice \<Rightarrow> (error + unit) \<times> ZWaveDevice" where
  "node_info_update event self =
     assign (product_id event) (\<lambda>x d. d\<lparr>zwave_product_id := x\<rparr>)
    (assign (product_type event) (\<lambda>x d. d\<lparr>zwave_product_type := x\<rparr>)
    (assign (product_name event) (\<lambda>x d. d\<lparr>zwave_product_name := x\<rparr>)
    (assign (manufacturer_id event) (\<lambda>x d. d\<lparr>zwave_manufacturer_id := x\<rparr>)
    (assign (manufacturer_name event) (\<lambda>x d. d\<lparr>zwave_manufacturer_name := x\<rparr>)
    (assign (node_name event) (\<lambda>x d. d\<lparr>zwave_node_name := x\<rparr>)
    (assign (node_type event) (\<lambda>x d. d\<lparr>zwave_node_type := x\<rparr>)
       (Inr (), self)))))))"

text \<open>
  \<^verbatim>\<open>ZWaveDevice.handle_event\<close>. The handler of the base class does nothing, as that of
  \<^verbatim>\<open>Device\<close> in model.py. A notification
  without \<^verbatim>\<open>notificationType\<close> is a KeyError; \<^verbatim>\<open>homeId\<close> and \<^verbatim>\<open>nodeId\<close> are stored when
  present; any other notification type is logged and ignored.
\<close>

definition handle_event ::
  "(string \<rightharpoonup> 'r) \<Rightarrow> Event \<Rightarrow> ZWaveDevice
     \<Rightarrow> (error + unit) \<times> ZWaveDevice \<times> room_call list" where
  "handle_event room_store event self =
     (case notificationType event of
        None \<Rightarrow> (Inl KeyError, self, [])
      | Some notification_type \<Rightarrow>
          let self1 = (case homeId event of
                         None \<Rightarrow> self
                       | Some h \<Rightarrow> self\<lparr>zwave_home_id := Some h\<rparr>);
              self2 = (case nodeId event of
                         None \<Rightarrow> self1
                       | Some n \<Rightarrow> self1\<lparr>zwave_node_id := Some n\<rparr>)
          in if notification_type = ''ValueAdded'' \<or> notification_type = ''ValueChanged''
             then value_changed room_store event self2
             else if notification_type = ''NodeInfoUpdate''
             then (case node_info_update event self2 of (r, self3) \<Rightarrow> (r, self3, []))
             else (Inr (), self2, []))"

section \<open>user.py: the event batch of a request and its delivery\<close>

text \<open>
  \<^verbatim>\<open>flask.g.user_events\<close> is \<^verbatim>\<open>None\<close> or the list of pairs of a building id and an event.
  \<^verbatim>\<open>building.get_id()\<close> is read from the request's namespace each time it is called: it
  is an argument of both functions.
\<close>

definition send_event ::
  "string \<Rightarrow> 'e \<Rightarrow> (string \<times> 'e) list option \<Rightarrow> (string \<times> 'e) list option" where
  "send_event building_id kwargs user_events =
     (let batch = (case user_events of None \<Rightarrow> [] | Some b \<Rightarrow> b)
      in Some (batch @ [(building_id, kwargs)]))"

text \<open>
  Modelled from the spec: \<^verbatim>\<open>utils.limit_json_batch\<close>, which \<^verbatim>\<open>push_events\<close> calls, is in a
  module that is not among the sources. Following the specification, the events are cut,
  in their order, into sub-batches no larger than \<open>max_size\<close>: an event joins the current
  sub-batch as long as the serialized size of the sub-batch stays within \<open>max_size\<close>, and
  starts the next one otherwise. No event is dropped or cut, so a sub-batch holds at
  least one event. The serialized size of a list of events is the parameter
  \<open>serialized_size\<close>.
\<close>

fun batches :: "('e list \<Rightarrow> nat) \<Rightarrow> nat \<Rightarrow> 'e list \<Rightarrow> 'e list \<Rightarrow> 'e list list" where
  "batches serialized_size max_size batch [] = [batch]"
| "batches serialized_size max_size batch (e # es) =
     (if serialized_size (batch @ [e]) \<le> max_size
      then batches serialized_size max_size (batch @ [e]) es
      else batch # batches serialized_size max_size [e] es)"

definition limit_json_batch :: "('e list \<Rightarrow> nat) \<Rightarrow> 'e list \<Rightarrow> nat \<Rightarrow> 'e list list" where
  "limit_json_batch serialized_size events max_size =
     (case events of
        [] \<Rightarrow> []
      | e # es \<Rightarrow> batches serialized_size max_size [e] es)"

text \<open>
  \<^verbatim>\<open>push_events\<close>: the buffer is read and reset to \<^verbatim>\<open>None\<close> first. Each event's building id
  is asserted to equal the building id of the flush; then every sub-batch yielded by the
  splitter is pushed on the channel \<^verbatim>\<open>private-<building id>\<close>. The result carries the
  buffer after the call and the calls of \<^verbatim>\<open>push\<close> made, in order. The transport is outside
  this development: a call of \<^verbatim>\<open>push\<close> is recorded and taken to return.
\<close>

definition push_events ::
  "('e list \<Rightarrow> nat \<Rightarrow> 'e list list) \<Rightarrow> string \<Rightarrow> (string \<times> 'e) list option
     \<Rightarrow> (error + unit) \<times> (string \<times> 'e) list option \<times> (string \<times> 'e list) list" where
  "push_events splitter building_id user_events =
     (case user_events of
        None \<Rightarrow> (Inr (), None, [])
      | Some events \<Rightarrow>
          let channel_id = ''private-'' @ building_id
          in if list_all (\<lambda>(b, e). b = building_id) events
             then (Inr (), None,
                   map (\<lambda>batch. (channel_id, batch)) (splitter (map snd events) 8000))
             else (Inl AssertionError, None, []))"

section \<open>account.py: token exchange and the OAuth callback\<close>

text \<open>
  An account. \<open>expires\<close> is a Python float (the sum \<^verbatim>\<open>time.time() + result['expires_in']\<close>);
  the type of floats is the parameter \<open>'f\<close>, and no arithmetic on it is assumed.
\<close>

record 'f Account =
  account_type :: string
  account_owner :: string
  auth_code :: "string option"
  access_token :: "string option"
  expires :: "'f option"
  refresh_token :: "string option"

text \<open>
  What a class of accounts defines: the four class constants (all \<^verbatim>\<open>None\<close> in the base
  class) and the two methods that subclasses override, \<^verbatim>\<open>_get_refresh_data\<close> (the empty
  string in the base class) and \<^verbatim>\<open>refresh_devices\<close> (which does nothing there).
\<close>

record 'f account_class =
  CLIENT_ID :: "string option"
  CLIENT_SECRET :: "string option"
  ACCESS_TOKEN_URL :: "string option"
  AUTH_URL :: "string option"
  get_refresh_data :: "'f Account \<Rightarrow> string"
  refresh_devices :: "'f Account \<Rightarrow> error + 'f Account"

definition Account_class :: "'f account_class" where
  "Account_class =
     \<lparr>CLIENT_ID = None, CLIENT_SECRET = None, ACCESS_TOKEN_URL = None, AUTH_URL = None,
      get_refresh_data = (\<lambda>self. []), refresh_devices = (\<lambda>self. Inr self)\<rparr>"

text \<open>
  The two arguments of \<^verbatim>\<open>urllib2.urlopen(url, data)\<close>. The answer is a response with a
  body, an error response with a body (for which \<^verbatim>\<open>urlopen\<close> raises HTTPError), or no
  response at all (URLError). A body is what \<^verbatim>\<open>json.load\<close> makes of it: an object,
  another JSON value, or a ValueError.
\<close>

record request =
  request_url :: string
  request_data :: string

datatype body = Malformed | Json_object "(string \<times> pyval) list" | Json_other

datatype response = Response body | Error_response body | No_response

text \<open>
  Assigning to a string property accepts a string or \<^verbatim>\<open>None\<close> and rejects every other
  value with BadValueError.
\<close>

definition string_property :: "pyval \<Rightarrow> error + string option" where
  "string_property x =
     (case x of PyStr s \<Rightarrow> Inr (Some s) | PyNone \<Rightarrow> Inr None | _ \<Rightarrow> Inl BadValueError)"

text \<open>
  The three assignments that end \<^verbatim>\<open>refresh_access_token\<close>, each made after the earlier
  ones: \<^verbatim>\<open>result['access_token']\<close> and \<^verbatim>\<open>result['expires_in']\<close> raise KeyError when
  missing, \<^verbatim>\<open>result.get('refresh_token', None)\<close> does not. So an exception of the second
  or third assignment leaves the account with the new access token.

  \<open>time_plus x\<close> stands for the evaluation of \<^verbatim>\<open>time.time() + x\<close> by the Python runtime: it
  reads the clock and adds in floating point, so it gives a float (rounded), or raises
  (TypeError when \<open>x\<close> is not a number, OverflowError when \<open>x\<close> is an integer too large for
  a float). It is a parameter, and nothing is assumed about it.
\<close>

definition store_tokens ::
  "(pyval \<Rightarrow> error + 'f) \<Rightarrow> (string \<times> pyval) list \<Rightarrow> 'f Account
     \<Rightarrow> (error + unit) \<times> 'f Account" where
  "store_tokens time_plus result self =
     (case map_of result ''access_token'' of
        None \<Rightarrow> (Inl KeyError, self)
      | Some a \<Rightarrow>
     (case string_property a of
        Inl e \<Rightarrow> (Inl e, self)
      | Inr token \<Rightarrow>
          let self1 = self\<lparr>access_token := token\<rparr>
          in
     (case map_of result ''expires_in'' of
        None \<Rightarrow> (Inl KeyError, self1)
      | Some x \<Rightarrow>
     (case time_plus x of
        Inl e \<Rightarrow> (Inl e, self1)
      | Inr t \<Rightarrow>
          let self2 = self1\<lparr>expires := Some t\<rparr>
          in
     (case string_property
             (case map_of result ''refresh_token'' of None \<Rightarrow> PyNone | Some r \<Rightarrow> r) of
        Inl e \<Rightarrow> (Inl e, self2)
      | Inr r \<Rightarrow> (Inr (), self2\<lparr>refresh_token := r\<rparr>))))))"

text \<open>
  The dictionary that the token url is formatted with: its values are strings or \<^verbatim>\<open>None\<close>.
\<close>

definition parameters :: "'f account_class \<Rightarrow> 'f Account \<Rightarrow> (string \<times> string option) list" where
  "parameters cls self =
     [(''client_id'', CLIENT_ID cls),
      (''auth_code'', auth_code self),
      (''client_secret'', CLIENT_SECRET cls),
      (''grant_type'', Some ''authorization_code'')]"

text \<open>
  \<^verbatim>\<open>Account.refresh_access_token\<close>. \<open>format template parameters\<close> stands for the evaluation
  of \<^verbatim>\<open>ACCESS_TOKEN_URL % parameters\<close> by the Python runtime, which gives the url or raises
  (KeyError for a placeholder that is no key of the dictionary, ValueError or TypeError
  for a template that is no format string); it is a parameter, like \<open>urlopen\<close> and
  \<open>time_plus\<close>. Formatting comes first, so an exception there is raised before any request
  is made. Formatting the template \<^verbatim>\<open>None\<close> of the base class is a TypeError. In the handler
  of HTTPError the body is decoded (a ValueError when it is not JSON) and the HTTPError is
  raised again; no other exception is caught and nothing is tried twice. The result
  carries the account as the call leaves it and the requests made.
\<close>

definition refresh_access_token ::
  "'f account_class \<Rightarrow> (string \<Rightarrow> (string \<times> string option) list \<Rightarrow> error + string)
     \<Rightarrow> (request \<Rightarrow> response) \<Rightarrow> (pyval \<Rightarrow> error + 'f) \<Rightarrow> 'f Account
     \<Rightarrow> (error + unit) \<times> 'f Account \<times> request list" where
  "refresh_access_token cls format urlopen time_plus self =
     (case ACCESS_TOKEN_URL cls of
        None \<Rightarrow> (Inl TypeError, self, [])
      | Some template \<Rightarrow>
     (case format template (parameters cls self) of
        Inl e \<Rightarrow> (Inl e, self, [])
      | Inr url \<Rightarrow>
          let req = \<lparr>request_url = url, request_data = get_refresh_data cls self\<rparr>
          in (case urlopen req of
                No_response \<Rightarrow> (Inl URLError, self, [req])
              | Error_response b \<Rightarrow>
                  (case b of
                     Malformed \<Rightarrow> (Inl ValueError, self, [req])
                   | _ \<Rightarrow> (Inl HTTPError, self, [req]))
              | Response b \<Rightarrow>
                  (case b of
                     Malformed \<Rightarrow> (Inl ValueError, self, [req])
                   | Json_other \<Rightarrow> (Inl TypeError, self, [req])
                   | Json_object result \<Rightarrow>
                       (case store_tokens time_plus result self of
                          (r, self') \<Rightarrow> (r, self', [req]))))))"

text \<open>
  \<^verbatim>\<open>oauth_redirect_callback\<close>, with the query parameters \<^verbatim>\<open>code\<close> and \<^verbatim>\<open>state\<close>, the
  stored accounts (\<^verbatim>\<open>Account.get_by_id\<close> is the lookup) and the class of each account,
  found from its type. The account is put only when everything before returned. The
  result carries the stored accounts and the requests made.
\<close>

definition oauth_redirect_callback ::
  "(string \<Rightarrow> 'f account_class) \<Rightarrow> (string \<Rightarrow> (string \<times> string option) list \<Rightarrow> error + string)
     \<Rightarrow> (request \<Rightarrow> response) \<Rightarrow> (pyval \<Rightarrow> error + 'f)
     \<Rightarrow> string option \<Rightarrow> string option \<Rightarrow> (string \<rightharpoonup> 'f Account)
     \<Rightarrow> (error + string) \<times> (string \<rightharpoonup> 'f Account) \<times> request list" where
  "oauth_redirect_callback classes format urlopen time_plus code_arg state_arg accounts =
     (case code_arg of
        None \<Rightarrow> (Inl (Abort 400), accounts, [])
      | Some code \<Rightarrow>
     (case state_arg of
        None \<Rightarrow> (Inl (Abort 400), accounts, [])
      | Some state \<Rightarrow>
     (case accounts state of
        None \<Rightarrow> (Inl (Abort 400), accounts, [])
      | Some account \<Rightarrow>
          let cls = classes (account_type account);
              account1 = account\<lparr>auth_code := Some code\<rparr>
          in (case refresh_access_token cls format urlopen time_plus account1 of
                (Inl e, account2, reqs) \<Rightarrow> (Inl e, accounts, reqs)
              | (Inr u, account2, reqs) \<Rightarrow>
                  (case refresh_devices cls account2 of
                     Inl e \<Rightarrow> (Inl e, accounts, reqs)
                   | Inr account3 \<Rightarrow>
                       (Inr ''OK'', accounts(state \<mapsto> account3), reqs))))))"

section \<open>Notions used in the statements\<close>

text \<open>
  The key of an entry, the entries of a device under a given command class and index,
  and the invariant of the data model: no two entries of a device have the same key.
\<close>

definition ccv_key :: "CommandClassValue \<Rightarrow> string option \<times> int option" where
  "ccv_key ccv = (ccv_command_class ccv, ccv_index ccv)"

definition entries_for :: "string \<Rightarrow> int \<Rightarrow> ZWaveDevice \<Rightarrow> CommandClassValue list" where
  "entries_for command_class index self =
     filter (\<lambda>ccv. ccv_key ccv = (Some command_class, Some index))
       (zwave_command_class_values self)"

definition at_most_one_per_key :: "ZWaveDevice \<Rightarrow> bool" where
  "at_most_one_per_key self = distinct (map ccv_key (zwave_command_class_values self))"

text \<open>
  The list of entries after the upsert of \<^verbatim>\<open>handle_event\<close>: the entry that
  \<^verbatim>\<open>_command_class_value\<close> returns, populated where it stands.
\<close>

definition upsert ::
  "string \<Rightarrow> int \<Rightarrow> bool \<Rightarrow> int \<Rightarrow> ValueId \<Rightarrow> CommandClassValue list
     \<Rightarrow> CommandClassValue list" where
  "upsert command_class index read_only value_id v values =
     (case find_ccv command_class index values of
        Some k \<Rightarrow> values[k := populate read_only value_id v (values ! k)]
      | None \<Rightarrow>
          values @ [populate read_only value_id v (new_CommandClassValue command_class index)])"

text \<open>
  A \<^verbatim>\<open>valueId\<close> that \<^verbatim>\<open>handle_event\<close> can process: the keys it pops and deletes are there,
  and so is \<^verbatim>\<open>value\<close> when the command class is the binary sensor's.
\<close>

definition complete :: "ValueId \<Rightarrow> bool" where
  "complete v =
     (v_commandClass v \<noteq> None \<and> v_index v \<noteq> None \<and> v_readOnly v \<noteq> None \<and> v_id v \<noteq> None
      \<and> v_homeId v \<noteq> None \<and> v_nodeId v \<noteq> None \<and> v_instance v \<noteq> None
      \<and> (if v_commandClass v = Some ''COMMAND_CLASS_SENSOR_BINARY''
         then v_value v \<noteq> None else True))"

text \<open>An entry holds the value fields that a notification carries.\<close>

definition holds_fields :: "ValueId \<Rightarrow> CommandClassValue \<Rightarrow> bool" where
  "holds_fields v ccv =
     (ccv_read_only ccv = v_readOnly v \<and> ccv_value_id ccv = v_id v
      \<and> (case v_value v of None \<Rightarrow> True | Some x \<Rightarrow> ccv_value ccv = x)
      \<and> (case v_units v of None \<Rightarrow> True | Some x \<Rightarrow> ccv_units ccv = Some x)
      \<and> (case v_genre v of None \<Rightarrow> True | Some x \<Rightarrow> ccv_genre ccv = Some x)
      \<and> (case v_label v of None \<Rightarrow> True | Some x \<Rightarrow> ccv_label ccv = Some x)
      \<and> (case v_type v of None \<Rightarrow> True | Some x \<Rightarrow> ccv_type ccv = Some x))"

section \<open>Concrete inputs\<close>

definition example_device :: Device where
  "example_device =
     \<lparr>device_class = Device_class, device_key = ''dev-1'', device_owner = ''alice'',
      device_name = None, device_room = None, switch_state = None\<rparr>"

definition example_store :: datastore where
  "example_store =
     \<lparr>rooms = [''kitchen'' \<mapsto>
                \<lparr>room_owner = ''alice'', room_name = None, room_devices = []\<rparr>],
      devices = Map.empty, writes = []\<rparr>"

text \<open>A Z-Wave device as \<^verbatim>\<open>ZWaveDevice(room=...)\<close> constructs it.\<close>

definition new_ZWaveDevice :: "string option \<Rightarrow> ZWaveDevice" where
  "new_ZWaveDevice room =
     \<lparr>zwave_room = room, zwave_node_id = None, zwave_home_id = None,
      zwave_command_class_values = [], zwave_node_type = None, zwave_node_name = None,
      zwave_manufacturer_name = None, zwave_manufacturer_id = None,
      zwave_product_name = None, zwave_product_type = None, zwave_product_id = None,
      zwave_state = None, zwave_driver = None\<rparr>"

text \<open>A \<^verbatim>\<open>ValueChanged\<close> notification with the given \<^verbatim>\<open>valueId\<close> and nothing else.\<close>

definition ValueChanged :: "ValueId \<Rightarrow> Event" where
  "ValueChanged v =
     \<lparr>notificationType = Some ''ValueChanged'', homeId = None, nodeId = None,
      valueId = Some v, node_type = None, node_name = None, manufacturer_name = None,
      manufacturer_id = None, product_name = None, product_type = None,
      product_id = None\<rparr>"

text \<open>
  The \<^verbatim>\<open>valueId\<close> of the specification's scenario, which has the keys \<^verbatim>\<open>commandClass\<close>,
  \<^verbatim>\<open>index\<close>, \<^verbatim>\<open>id\<close>, \<^verbatim>\<open>readOnly\<close> and \<^verbatim>\<open>value\<close> only, and the same with the keys
  \<^verbatim>\<open>homeId\<close>, \<^verbatim>\<open>nodeId\<close> and \<^verbatim>\<open>instance\<close> that the mesh sends along.
\<close>

definition scenario_value :: ValueId where
  "scenario_value =
     \<lparr>v_commandClass = Some ''COMMAND_CLASS_SENSOR_BINARY'', v_index = Some 0,
      v_readOnly = Some True, v_id = Some 1, v_homeId = None, v_nodeId = None,
      v_instance = None, v_value = Some (PyBool True), v_units = None, v_genre = None,
      v_label = None, v_type = None\<rparr>"

definition mesh_value :: "pyval \<Rightarrow> ValueId" where
  "mesh_value x =
     scenario_value\<lparr>v_homeId := Some 7, v_nodeId := Some 3, v_instance := Some 1,
                    v_value := Some x\<rparr>"

text \<open>
  Two devices with entries: one holds an entry of the battery class, the other holds two
  entries under the same command class and index, which no call of \<^verbatim>\<open>handle_event\<close> produces
  but the list property admits.
\<close>

definition battery_device :: ZWaveDevice where
  "battery_device =
     (new_ZWaveDevice None)
       \<lparr>zwave_command_class_values := [new_CommandClassValue ''COMMAND_CLASS_BATTERY'' 0]\<rparr>"

definition duplicated_device :: ZWaveDevice where
  "duplicated_device =
     (new_ZWaveDevice None)
       \<lparr>zwave_command_class_values :=
          [new_CommandClassValue ''COMMAND_CLASS_SENSOR_BINARY'' 0,
           new_CommandClassValue ''COMMAND_CLASS_SENSOR_BINARY'' 0]\<rparr>"

text \<open>
  A class of accounts that sets the four constants and inherits both methods, the same
  class with a token url that names a key \<^verbatim>\<open>code\<close>, which the dictionary does not have, and
  an account of that class that was linked before.
\<close>

definition example_class :: "real account_class" where
  "example_class =
     Account_class
       \<lparr>CLIENT_ID := Some ''client-1'',
        CLIENT_SECRET := Some ''secret-1'',
        ACCESS_TOKEN_URL :=
          Some ''https://provider.example/token?code=%(auth_code)s&type=%(grant_type)s'',
        AUTH_URL := Some ''https://provider.example/auth?state=%(state)s''\<rparr>"

definition misnamed_class :: "real account_class" where
  "misnamed_class =
     example_class\<lparr>ACCESS_TOKEN_URL := Some ''https://provider.example/token?code=%(code)s''\<rparr>"

definition linked_account :: "real Account" where
  "linked_account =
     \<lparr>account_type = ''example'', account_owner = ''alice'', auth_code = Some ''code-1'',
      access_token = Some ''token-1'', expires = Some 1000,
      refresh_token = Some ''refresh-1''\<rparr>"

text \<open>
  The runtime of the examples. The formatting operator is Python's on the templates that
  the examples use, in which every \<^verbatim>\<open>%\<close> begins \<^verbatim>\<open>%%\<close> or \<^verbatim>\<open>%(key)s\<close> with a key free of
  parentheses: the text is copied, \<^verbatim>\<open>%%\<close> gives \<^verbatim>\<open>%\<close>, and \<^verbatim>\<open>%(key)s\<close> gives \<^verbatim>\<open>str\<close> of the
  value under the key, or raises KeyError, as soon as the key is read, when the dictionary
  has no such key; a template that ends inside a placeholder is a ValueError. (Templates
  of another form are not used; this instance answers them with ValueError.) The clock
  reads 2000.0 and the one value that the examples add is 3600, so that the sum
  \<^verbatim>\<open>time.time() + 3600\<close> is 5600.0. (Other values are not added; this instance answers
  them with TypeError.)
  The first provider answers every request with a new access token and no refresh token,
  the second leaves out \<^verbatim>\<open>expires_in\<close> as well.
\<close>

datatype format_state = Text | Percent | Key string | Conversion "string option"

definition prepend :: "string \<Rightarrow> error + string \<Rightarrow> error + string" where
  "prepend s r = (case r of Inl e \<Rightarrow> Inl e | Inr t \<Rightarrow> Inr (s @ t))"

fun interpolate ::
  "(string \<times> string option) list \<Rightarrow> format_state \<Rightarrow> string \<Rightarrow> error + string" where
  "interpolate ps Text [] = Inr []"
| "interpolate ps Text (c # cs) =
     (if c = CHR ''%'' then interpolate ps Percent cs
      else prepend [c] (interpolate ps Text cs))"
| "interpolate ps Percent [] = Inl ValueError"
| "interpolate ps Percent (c # cs) =
     (if c = CHR ''%'' then prepend ''%'' (interpolate ps Text cs)
      else if c = CHR ''('' then interpolate ps (Key []) cs
      else Inl ValueError)"
| "interpolate ps (Key k) [] = Inl ValueError"
| "interpolate ps (Key k) (c # cs) =
     (if c = CHR '')''
      then (case map_of ps k of
              None \<Rightarrow> Inl KeyError
            | Some v \<Rightarrow> interpolate ps (Conversion v) cs)
      else if c = CHR ''('' then Inl ValueError
      else interpolate ps (Key (k @ [c])) cs)"
| "interpolate ps (Conversion v) [] = Inl ValueError"
| "interpolate ps (Conversion v) (c # cs) =
     (if c = CHR ''s'' then prepend (str v) (interpolate ps Text cs)
      else Inl ValueError)"

definition example_format :: "string \<Rightarrow> (string \<times> string option) list \<Rightarrow> error + string" where
  "example_format template ps = interpolate ps Text template"

definition example_clock :: "pyval \<Rightarrow> error + real" where
  "example_clock x = (if x = PyInt 3600 then Inr 5600 else Inl TypeError)"

definition provider :: "request \<Rightarrow> response" where
  "provider req =
     Response (Json_object [(''access_token'', PyStr ''token-2''), (''expires_in'', PyInt 3600)])"

definition terse_provider :: "request \<Rightarrow> response" where
  "terse_provider req = Response (Json_object [(''access_token'', PyStr ''token-2'')])"

section \<open>Command dispatch and rooms\<close>

text \<open>
  Claim C7. Dispatching \<^verbatim>\<open>set_room\<close> with a room id that resolves to no room fails with
  the not-found abort (404) and leaves the device and the whole datastore, so the device's
  room and every room's list of devices, as they were. When the room exists the dispatch
  returns; the device's key is appended to the room's list and the room is put, then the
  device's room is set and the device is put: two puts, in this order.
\<close>

theorem set_room_dispatch:
  "(rooms ds room_id = None \<longrightarrow>
      handle_command inherited [(''command'', ''set_room''), (''room_id'', room_id)] self ds
        = (Inl (Abort 404), self, ds))
   \<and> (\<forall>room. rooms ds room_id = Some room \<longrightarrow>
        handle_command inherited [(''command'', ''set_room''), (''room_id'', room_id)] self ds
          = (Inr (),
             self\<lparr>device_room := Some room_id\<rparr>,
             ds\<lparr>rooms := (rooms ds)(room_id \<mapsto>
                     room\<lparr>room_devices := room_devices room @ [device_key self]\<rparr>),
                devices := (devices ds)(device_key self \<mapsto>
                     self\<lparr>device_room := Some room_id\<rparr>),
                writes := writes ds @ [Put_room room_id, Put_device (device_key self)]\<rparr>))"
  by (simp add: handle_command_def getattr_device_def call_handler_def set_room_def Let_def)

theorem set_room_dispatch_witness:
  "rooms example_store ''attic'' = None
   \<and> handle_command (\<lambda>n. False) [(''command'', ''set_room''), (''room_id'', ''attic'')]
        example_device example_store
      = (Inl (Abort 404), example_device, example_store)
   \<and> rooms example_store ''kitchen''
        = Some \<lparr>room_owner = ''alice'', room_name = None, room_devices = []\<rparr>
   \<and> handle_command (\<lambda>n. False) [(''command'', ''set_room''), (''room_id'', ''kitchen'')]
        example_device example_store
      = (Inr (),
         example_device\<lparr>device_room := Some ''kitchen''\<rparr>,
         \<lparr>rooms = [''kitchen'' \<mapsto>
              \<lparr>room_owner = ''alice'', room_name = None, room_devices = [''dev-1'']\<rparr>],
          devices = [''dev-1'' \<mapsto> example_device\<lparr>device_room := Some ''kitchen''\<rparr>],
          writes = [Put_room ''kitchen'', Put_device ''dev-1'']\<rparr>)"
  using set_room_dispatch [of example_store "''attic''" "\<lambda>n. False" example_device]
        set_room_dispatch [of example_store "''kitchen''" "\<lambda>n. False" example_device]
  by (simp add: example_store_def example_device_def)

text \<open>
  Claim C10. \<^verbatim>\<open>set_room\<close> appends the device's key to the room's list without looking
  for it there: two calls with the same room id, both of which return, leave the key
  twice at the end of the list, which then has a repeated element.
\<close>

theorem set_room_appends_duplicate:
  "rooms ds room_id = Some room \<Longrightarrow>
     (\<exists>self1 ds1 self2 ds2.
        set_room room_id self ds = (Inr (), self1, ds1)
      \<and> rooms ds1 room_id
          = Some (room\<lparr>room_devices := room_devices room @ [device_key self]\<rparr>)
      \<and> set_room room_id self1 ds1 = (Inr (), self2, ds2)
      \<and> rooms ds2 room_id
          = Some (room\<lparr>room_devices :=
                        room_devices room @ [device_key self, device_key self]\<rparr>)
      \<and> \<not> distinct (room_devices room @ [device_key self, device_key self]))"
  by (simp add: set_room_def Let_def)

theorem set_room_appends_duplicate_witness:
  "rooms example_store ''kitchen''
     = Some \<lparr>room_owner = ''alice'', room_name = None, room_devices = []\<rparr>
   \<and> (\<exists>self1 ds1 self2 ds2.
        set_room ''kitchen'' example_device example_store = (Inr (), self1, ds1)
      \<and> set_room ''kitchen'' self1 ds1 = (Inr (), self2, ds2)
      \<and> rooms ds2 ''kitchen''
          = Some \<lparr>room_owner = ''alice'', room_name = None,
                  room_devices = [''dev-1'', ''dev-1'']\<rparr>)"
proof -
  have h: "rooms example_store ''kitchen''
     = Some \<lparr>room_owner = ''alice'', room_name = None, room_devices = []\<rparr>"
    by (simp add: example_store_def)
  from set_room_appends_duplicate [OF h, of example_device]
  obtain self1 ds1 self2 ds2 where
    "set_room ''kitchen'' example_device example_store = (Inr (), self1, ds1)"
    "set_room ''kitchen'' self1 ds1 = (Inr (), self2, ds2)"
    "rooms ds2 ''kitchen''
          = Some \<lparr>room_owner = ''alice'', room_name = None,
                  room_devices = [] @ [device_key example_device, device_key example_device]\<rparr>"
    by auto
  then show ?thesis using h by (auto simp: example_device_def)
qed

text \<open>
  Claim C3, at the input where the code departs from it. The command \<^verbatim>\<open>to_dict\<close> names a
  method of every device that is not flagged as a command. The dispatch does not answer with
  the client error \<^verbatim>\<open>abort(400)\<close>: reading \<^verbatim>\<open>is_command\<close> from the method raises
  AttributeError. No handler runs, and the device and the datastore are unchanged. A name
  that the device does not have at all, such as \<^verbatim>\<open>fly\<close>, does get \<^verbatim>\<open>abort(400)\<close>.
\<close>

theorem handle_command_unflagged_method:
  "handle_command (\<lambda>n. False) [(''command'', ''to_dict'')] example_device example_store
     = (Inl AttributeError, example_device, example_store)
   \<and> handle_command (\<lambda>n. False) [(''command'', ''fly'')] example_device example_store
     = (Inl (Abort 400), example_device, example_store)"
  by (simp add: handle_command_def getattr_device_def example_device_def)

section \<open>The upsert of command class values\<close>

lemma find_ccv_None:
  "find_ccv cc i xs = None \<Longrightarrow> (Some cc, Some i) \<notin> set (map ccv_key xs)"
  by (induction xs) (auto simp: ccv_key_def split: if_splits)

lemma find_ccv_Some:
  "find_ccv cc i xs = Some k \<Longrightarrow> k < length xs \<and> ccv_key (xs ! k) = (Some cc, Some i)"
proof (induction xs arbitrary: k)
  case Nil
  then show ?case by simp
next
  case (Cons x xs)
  show ?case
  proof (cases "ccv_command_class x = Some cc \<and> ccv_index x = Some i")
    case True
    with Cons.prems show ?thesis by (simp add: ccv_key_def)
  next
    case False
    with Cons.prems obtain j where j: "find_ccv cc i xs = Some j" "k = Suc j"
      by auto
    with Cons.IH [of j] show ?thesis by simp
  qed
qed

lemma find_ccv_present:
  "(Some cc, Some i) \<in> set (map ccv_key xs) \<Longrightarrow> \<exists>k. find_ccv cc i xs = Some k"
  using find_ccv_None [of cc i xs] by (cases "find_ccv cc i xs") auto

lemma ccv_key_populate: "ccv_key (populate ro vid v c) = ccv_key c"
  by (simp add: ccv_key_def populate_def)

lemma ccv_key_new: "ccv_key (new_CommandClassValue cc i) = (Some cc, Some i)"
  by (simp add: ccv_key_def new_CommandClassValue_def)

lemma holds_fields_populate:
  "v_readOnly v = Some ro \<Longrightarrow> v_id v = Some vid \<Longrightarrow> holds_fields v (populate ro vid v c)"
  by (simp add: holds_fields_def populate_def split: option.splits)

lemma map_key_update:
  "k < length xs \<Longrightarrow> ccv_key y = ccv_key (xs ! k) \<Longrightarrow> map ccv_key (xs[k := y]) = map ccv_key xs"
  by (simp add: map_update list_update_same_conv)

lemma filter_distinct_key:
  "distinct (map f xs) \<Longrightarrow> k < length xs \<Longrightarrow> filter (\<lambda>c. f c = f (xs ! k)) xs = [xs ! k]"
proof (induction xs arbitrary: k)
  case Nil
  then show ?case by simp
next
  case (Cons x xs)
  show ?case
  proof (cases k)
    case 0
    with Cons.prems have "\<forall>c\<in>set xs. f c \<noteq> f x" by (auto simp: image_iff)
    then have "filter (\<lambda>c. f c = f x) xs = []" by (simp add: filter_empty_conv)
    with 0 show ?thesis by simp
  next
    case (Suc j)
    with Cons.prems have j: "j < length xs" and d: "distinct (map f xs)" by auto
    from j have "xs ! j \<in> set xs" by simp
    with Cons.prems have "f x \<noteq> f (xs ! j)" by auto
    with Cons.IH [OF d j] Suc show ?thesis by simp
  qed
qed

lemma value_changed_result:
  assumes "valueId e = Some v" "complete v"
    and "v_commandClass v = Some cc" "v_index v = Some i"
    and "v_readOnly v = Some ro" "v_id v = Some vid"
  shows "value_changed rs e self
           = (Inr (),
              self\<lparr>zwave_command_class_values :=
                     upsert cc i ro vid v (zwave_command_class_values self)\<rparr>,
              if cc = ''COMMAND_CLASS_SENSOR_BINARY''
              then lights rs (the (v_value v))
                     (self\<lparr>zwave_command_class_values :=
                             upsert cc i ro vid v (zwave_command_class_values self)\<rparr>)
              else [])"
  using assms
  by (auto simp: value_changed_def complete_def command_class_value_def Let_def upsert_def
           split: option.splits)


lemma upsert_keys:
  "map ccv_key (upsert cc i ro vid v xs)
     = (if (Some cc, Some i) \<in> set (map ccv_key xs) then map ccv_key xs
        else map ccv_key xs @ [(Some cc, Some i)])"
proof (cases "find_ccv cc i xs")
  case None
  from find_ccv_None [OF None] None show ?thesis
    by (simp add: upsert_def ccv_key_populate ccv_key_new)
next
  case (Some k)
  from find_ccv_Some [OF Some] have k: "k < length xs" "ccv_key (xs ! k) = (Some cc, Some i)"
    by auto
  then have "(Some cc, Some i) \<in> set (map ccv_key xs)"
    by (metis length_map nth_map nth_mem)
  with Some k show ?thesis
    by (simp add: upsert_def map_key_update ccv_key_populate)
qed

lemma upsert_distinct:
  "distinct (map ccv_key xs) \<Longrightarrow> distinct (map ccv_key (upsert cc i ro vid v xs))"
  by (simp add: upsert_keys)

lemma upsert_length:
  "(Some cc, Some i) \<in> set (map ccv_key xs) \<Longrightarrow> length (upsert cc i ro vid v xs) = length xs"
  using upsert_keys [of cc i ro vid v xs] by (metis length_map)

lemma upsert_present: "(Some cc, Some i) \<in> set (map ccv_key (upsert cc i ro vid v xs))"
  by (simp add: upsert_keys)

lemma upsert_entry:
  assumes "distinct (map ccv_key xs)"
  shows "\<exists>c. filter (\<lambda>c. ccv_key c = (Some cc, Some i)) (upsert cc i ro vid v xs)
              = [populate ro vid v c]"
proof (cases "find_ccv cc i xs")
  case None
  from find_ccv_None [OF None]
  have "filter (\<lambda>c. ccv_key c = (Some cc, Some i)) xs = []"
    by (auto simp: filter_empty_conv image_iff)
  with None show ?thesis
    by (auto simp: upsert_def ccv_key_populate ccv_key_new)
next
  case (Some k)
  from find_ccv_Some [OF Some] have k: "k < length xs" "ccv_key (xs ! k) = (Some cc, Some i)"
    by auto
  let ?ys = "xs[k := populate ro vid v (xs ! k)]"
  have keys: "map ccv_key ?ys = map ccv_key xs"
    using k by (simp add: map_key_update ccv_key_populate)
  with assms have d: "distinct (map ccv_key ?ys)" by simp
  have k': "k < length ?ys" using k by simp
  have "ccv_key (?ys ! k) = (Some cc, Some i)"
    using k by (simp add: ccv_key_populate)
  with filter_distinct_key [OF d k']
  have "filter (\<lambda>c. ccv_key c = (Some cc, Some i)) ?ys = [?ys ! k]" by simp
  with Some k show ?thesis by (auto simp: upsert_def)
qed

lemma handle_event_value_changed:
  assumes "notificationType e = Some ''ValueChanged''" "valueId e = Some v" "complete v"
    and "v_commandClass v = Some cc" "v_index v = Some i"
  shows "\<exists>self' ro vid.
           handle_event rs e self
             = (Inr (), self',
                if cc = ''COMMAND_CLASS_SENSOR_BINARY''
                then lights rs (the (v_value v)) self' else [])
         \<and> v_readOnly v = Some ro \<and> v_id v = Some vid
         \<and> zwave_room self' = zwave_room self
         \<and> zwave_command_class_values self'
             = upsert cc i ro vid v (zwave_command_class_values self)"
proof -
  from assms(3) obtain ro vid where rv: "v_readOnly v = Some ro" "v_id v = Some vid"
    by (auto simp: complete_def)
  show ?thesis
    using rv
    by (simp add: handle_event_def Let_def
          value_changed_result [OF assms(2,3,4,5) rv] assms(1)
          split: option.splits)
qed

text \<open>
  Claim C1, at inputs where it fails as stated. First, two notifications with the
  \<^verbatim>\<open>valueId\<close> of the specification, which has no \<^verbatim>\<open>homeId\<close>: each normalization raises
  KeyError at \<^verbatim>\<open>del value['homeId']\<close>, before the upsert, and the device has no entry under
  the command class and index afterwards. Second, a device that holds two entries under
  the same key, and two notifications that \<^verbatim>\<open>handle_event\<close> can process: both return, the
  first of the two entries is updated, and the device still has two entries under the key.
\<close>

theorem value_changed_twice_not_for_all:
  "handle_event (Map.empty :: string \<rightharpoonup> unit) (ValueChanged scenario_value)
       (new_ZWaveDevice None)
     = (Inl KeyError, new_ZWaveDevice None, [])
   \<and> entries_for ''COMMAND_CLASS_SENSOR_BINARY'' 0 (new_ZWaveDevice None) = []
   \<and> fst (handle_event (Map.empty :: string \<rightharpoonup> unit) (ValueChanged (mesh_value (PyInt 20)))
            duplicated_device) = Inr ()
   \<and> fst (handle_event (Map.empty :: string \<rightharpoonup> unit) (ValueChanged (mesh_value (PyInt 21)))
            (fst (snd (handle_event (Map.empty :: string \<rightharpoonup> unit)
                         (ValueChanged (mesh_value (PyInt 20))) duplicated_device)))) = Inr ()
   \<and> length (entries_for ''COMMAND_CLASS_SENSOR_BINARY'' 0
        (fst (snd (handle_event (Map.empty :: string \<rightharpoonup> unit)
                     (ValueChanged (mesh_value (PyInt 21)))
           (fst (snd (handle_event (Map.empty :: string \<rightharpoonup> unit)
                        (ValueChanged (mesh_value (PyInt 20))) duplicated_device))))))) = 2"
  by (simp add: handle_event_def value_changed_def ValueChanged_def scenario_value_def
        mesh_value_def entries_for_def new_ZWaveDevice_def duplicated_device_def
        command_class_value_def new_CommandClassValue_def populate_def lights_def ccv_key_def)

text \<open>
  Claim C1 as amended. Take a device with at most one entry per command class and index,
  and two \<^verbatim>\<open>ValueChanged\<close> notifications that \<^verbatim>\<open>handle_event\<close> can process (their \<^verbatim>\<open>valueId\<close>
  has the keys that it pops and deletes), carrying the same command class and index. Both
  normalizations return. The first leaves the list of the upsert: the entry under the key
  populated where it stands, or a populated new entry appended when there was none, every
  other entry as it was. The second finds the entry under the key at a position \<open>k\<close> of
  that list and replaces it there by the same entry populated from the second
  notification; every other position is unchanged and nothing is appended. Afterwards the
  device has exactly one entry under the key, it holds the value fields of the second
  notification, and no key occurs twice.
\<close>

theorem value_changed_twice:
  assumes inv: "at_most_one_per_key self"
    and e1: "notificationType e1 = Some ''ValueChanged''" "valueId e1 = Some v1" "complete v1"
    and e2: "notificationType e2 = Some ''ValueChanged''" "valueId e2 = Some v2" "complete v2"
    and k1: "v_commandClass v1 = Some cc" "v_index v1 = Some i"
    and k2: "v_commandClass v2 = Some cc" "v_index v2 = Some i"
  shows "\<exists>self1 calls1 self2 calls2 ro1 vid1 ro2 vid2 k ccv.
           handle_event rs e1 self = (Inr (), self1, calls1)
         \<and> handle_event rs e2 self1 = (Inr (), self2, calls2)
         \<and> v_readOnly v1 = Some ro1 \<and> v_id v1 = Some vid1
         \<and> v_readOnly v2 = Some ro2 \<and> v_id v2 = Some vid2
         \<and> zwave_command_class_values self1
             = upsert cc i ro1 vid1 v1 (zwave_command_class_values self)
         \<and> k < length (zwave_command_class_values self1)
         \<and> ccv_key (zwave_command_class_values self1 ! k) = (Some cc, Some i)
         \<and> ccv = populate ro2 vid2 v2 (zwave_command_class_values self1 ! k)
         \<and> zwave_command_class_values self2 = (zwave_command_class_values self1)[k := ccv]
         \<and> entries_for cc i self2 = [ccv]
         \<and> holds_fields v2 ccv
         \<and> length (zwave_command_class_values self2)
             = length (zwave_command_class_values self1)
         \<and> at_most_one_per_key self2"
proof -
  from handle_event_value_changed [OF e1 k1, of rs self]
  obtain self1 calls1 ro1 vid1 where
    h1: "handle_event rs e1 self = (Inr (), self1, calls1)"
    and r1: "v_readOnly v1 = Some ro1" "v_id v1 = Some vid1"
    and l1: "zwave_command_class_values self1
               = upsert cc i ro1 vid1 v1 (zwave_command_class_values self)"
    by blast
  from handle_event_value_changed [OF e2 k2, of rs self1]
  obtain self2 calls2 ro2 vid2 where
    h2: "handle_event rs e2 self1 = (Inr (), self2, calls2)"
    and r2: "v_readOnly v2 = Some ro2" "v_id v2 = Some vid2"
    and l2: "zwave_command_class_values self2
               = upsert cc i ro2 vid2 v2 (zwave_command_class_values self1)"
    by blast
  let ?xs = "zwave_command_class_values self1"
  from inv have d1: "distinct (map ccv_key ?xs)"
    by (simp add: at_most_one_per_key_def l1 upsert_distinct)
  then have d2: "at_most_one_per_key self2"
    by (simp add: at_most_one_per_key_def l2 upsert_distinct)
  have "(Some cc, Some i) \<in> set (map ccv_key ?xs)"
    unfolding l1 by (rule upsert_present)
  from find_ccv_present [OF this] obtain k where f: "find_ccv cc i ?xs = Some k"
    by blast
  from find_ccv_Some [OF f] have k: "k < length ?xs" "ccv_key (?xs ! k) = (Some cc, Some i)"
    by auto
  let ?ccv = "populate ro2 vid2 v2 (?xs ! k)"
  have u: "zwave_command_class_values self2 = ?xs[k := ?ccv]"
    using f by (simp add: l2 upsert_def)
  have len: "length (zwave_command_class_values self2) = length ?xs"
    by (simp add: u)
  have keys: "map ccv_key (?xs[k := ?ccv]) = map ccv_key ?xs"
    using k by (simp add: map_key_update ccv_key_populate)
  with d1 have d: "distinct (map ccv_key (?xs[k := ?ccv]))" by simp
  have k': "k < length (?xs[k := ?ccv])" using k by simp
  have "ccv_key ((?xs[k := ?ccv]) ! k) = (Some cc, Some i)"
    using k by (simp add: ccv_key_populate)
  with filter_distinct_key [OF d k']
  have "filter (\<lambda>c. ccv_key c = (Some cc, Some i)) (?xs[k := ?ccv]) = [?ccv]"
    using k by simp
  then have c: "entries_for cc i self2 = [?ccv]"
    by (simp add: entries_for_def u)
  have hf: "holds_fields v2 ?ccv"
    by (rule holds_fields_populate [OF r2])
  from h1 h2 r1 r2 l1 k u c hf len d2 show ?thesis by blast
qed

theorem value_changed_twice_witness:
  "at_most_one_per_key battery_device
   \<and> complete (mesh_value (PyInt 20)) \<and> complete (mesh_value (PyInt 21))
   \<and> v_commandClass (mesh_value (PyInt 20)) = v_commandClass (mesh_value (PyInt 21))
   \<and> v_index (mesh_value (PyInt 20)) = v_index (mesh_value (PyInt 21))
   \<and> (\<exists>self1 calls1 self2 calls2 ccv.
         handle_event (Map.empty :: string \<rightharpoonup> unit) (ValueChanged (mesh_value (PyInt 20)))
           battery_device
           = (Inr (), self1, calls1)
       \<and> handle_event (Map.empty :: string \<rightharpoonup> unit) (ValueChanged (mesh_value (PyInt 21)))
           self1
           = (Inr (), self2, calls2)
       \<and> zwave_command_class_values self2
           = [new_CommandClassValue ''COMMAND_CLASS_BATTERY'' 0, ccv]
       \<and> entries_for ''COMMAND_CLASS_SENSOR_BINARY'' 0 self2 = [ccv]
       \<and> ccv_value ccv = PyInt 21)"
proof -
  have a: "at_most_one_per_key battery_device"
    by (simp add: at_most_one_per_key_def battery_device_def new_ZWaveDevice_def)
  have c: "complete (mesh_value x)" for x
    by (simp add: complete_def mesh_value_def scenario_value_def)
  have n: "notificationType (ValueChanged v) = Some ''ValueChanged''"
          "valueId (ValueChanged v) = Some v" for v
    by (simp_all add: ValueChanged_def)
  have k: "v_commandClass (mesh_value x) = Some ''COMMAND_CLASS_SENSOR_BINARY''"
          "v_index (mesh_value x) = Some 0" for x
    by (simp_all add: mesh_value_def scenario_value_def)
  have v: "v_value (mesh_value x) = Some x" for x
    by (simp add: mesh_value_def)
  have b: "zwave_command_class_values battery_device
             = [new_CommandClassValue ''COMMAND_CLASS_BATTERY'' 0]"
    by (simp add: battery_device_def new_ZWaveDevice_def)
  have first: "upsert ''COMMAND_CLASS_SENSOR_BINARY'' 0 ro vid w
                 [new_CommandClassValue ''COMMAND_CLASS_BATTERY'' 0]
               = [new_CommandClassValue ''COMMAND_CLASS_BATTERY'' 0,
                  populate ro vid w (new_CommandClassValue ''COMMAND_CLASS_SENSOR_BINARY'' 0)]"
    for ro vid w
    by (simp add: upsert_def new_CommandClassValue_def)
  have other: "ccv_key (new_CommandClassValue ''COMMAND_CLASS_BATTERY'' 0)
                 \<noteq> (Some ''COMMAND_CLASS_SENSOR_BINARY'', Some 0)"
    by (simp add: ccv_key_new)
  from value_changed_twice [where rs = "Map.empty :: string \<rightharpoonup> unit",
         OF a n [of "mesh_value (PyInt 20)"] c n [of "mesh_value (PyInt 21)"] c k k]
  obtain self1 calls1 self2 calls2 ro1 vid1 ro2 vid2 j ccv where
    h: "handle_event (Map.empty :: string \<rightharpoonup> unit) (ValueChanged (mesh_value (PyInt 20)))
          battery_device = (Inr (), self1, calls1)"
       "handle_event (Map.empty :: string \<rightharpoonup> unit) (ValueChanged (mesh_value (PyInt 21)))
          self1 = (Inr (), self2, calls2)"
    and l1: "zwave_command_class_values self1
               = upsert ''COMMAND_CLASS_SENSOR_BINARY'' 0 ro1 vid1 (mesh_value (PyInt 20))
                   (zwave_command_class_values battery_device)"
    and j: "j < length (zwave_command_class_values self1)"
           "ccv_key (zwave_command_class_values self1 ! j)
              = (Some ''COMMAND_CLASS_SENSOR_BINARY'', Some 0)"
    and l2: "zwave_command_class_values self2 = (zwave_command_class_values self1)[j := ccv]"
    and e: "entries_for ''COMMAND_CLASS_SENSOR_BINARY'' 0 self2 = [ccv]"
    and hf: "holds_fields (mesh_value (PyInt 21)) ccv"
    by blast
  from l1 have l1': "zwave_command_class_values self1
      = [new_CommandClassValue ''COMMAND_CLASS_BATTERY'' 0,
         populate ro1 vid1 (mesh_value (PyInt 20))
           (new_CommandClassValue ''COMMAND_CLASS_SENSOR_BINARY'' 0)]"
    by (simp only: b first)
  from j other have "j = 1"
    unfolding l1' by (cases j) auto
  with l2 have "zwave_command_class_values self2
                  = [new_CommandClassValue ''COMMAND_CLASS_BATTERY'' 0, ccv]"
    by (simp add: l1')
  moreover from hf have "ccv_value ccv = PyInt 21"
    by (simp add: holds_fields_def v)
  ultimately show ?thesis using a c k h e by auto
qed

text \<open>
  Claim C9, at the payload of the specification. Its \<^verbatim>\<open>valueId\<close> has no \<^verbatim>\<open>homeId\<close>, so
  \<^verbatim>\<open>del value['homeId']\<close> raises KeyError before the upsert and before \<^verbatim>\<open>lights\<close>: the
  device in room R keeps its empty list of entries and no call reaches the room.
\<close>

theorem scenario_payload_raises:
  "handle_event [''R'' \<mapsto> ()] (ValueChanged scenario_value) (new_ZWaveDevice (Some ''R''))
     = (Inl KeyError, new_ZWaveDevice (Some ''R''), [])
   \<and> entries_for ''COMMAND_CLASS_SENSOR_BINARY'' 0 (new_ZWaveDevice (Some ''R'')) = []"
  by (simp add: handle_event_def value_changed_def ValueChanged_def scenario_value_def
        entries_for_def new_ZWaveDevice_def)

text \<open>
  Claim C9 as amended. When the \<^verbatim>\<open>valueId\<close> of a \<^verbatim>\<open>ValueChanged\<close> notification of the
  binary sensor class also carries \<^verbatim>\<open>homeId\<close>, \<^verbatim>\<open>nodeId\<close> and \<^verbatim>\<open>instance\<close>, and the device
  (with at most one entry per key) is placed in an existing room R, the normalization
  returns, \<^verbatim>\<open>lights(value)\<close> calls \<^verbatim>\<open>set_lights(value)\<close> on room R and on nothing else, and
  the device has exactly one entry under the binary sensor class and the index, holding
  that value.
\<close>

theorem binary_sensor_lights:
  assumes inv: "at_most_one_per_key self"
    and e: "notificationType e = Some ''ValueChanged''" "valueId e = Some v" "complete v"
    and k: "v_commandClass v = Some ''COMMAND_CLASS_SENSOR_BINARY''" "v_index v = Some i"
    and x: "v_value v = Some x"
    and r: "zwave_room self = Some room_id" "room_id \<noteq> []" "rs room_id = Some room_obj"
  shows "\<exists>self' ccv.
           handle_event rs e self = (Inr (), self', [Set_lights room_id x])
         \<and> entries_for ''COMMAND_CLASS_SENSOR_BINARY'' i self' = [ccv]
         \<and> ccv_value ccv = x
         \<and> holds_fields v ccv"
proof -
  from handle_event_value_changed [OF e k, of rs self]
  obtain self' ro vid where
    h: "handle_event rs e self
          = (Inr (), self', lights rs (the (v_value v)) self')"
    and rv: "v_readOnly v = Some ro" "v_id v = Some vid"
    and room: "zwave_room self' = zwave_room self"
    and l: "zwave_command_class_values self'
              = upsert ''COMMAND_CLASS_SENSOR_BINARY'' i ro vid v
                  (zwave_command_class_values self)"
    by auto
  have calls: "lights rs (the (v_value v)) self' = [Set_lights room_id x]"
    using x r room by (simp add: lights_def)
  from inv have d: "distinct (map ccv_key (zwave_command_class_values self))"
    by (simp add: at_most_one_per_key_def)
  from upsert_entry [OF d, of "''COMMAND_CLASS_SENSOR_BINARY''" i ro vid v]
  obtain c where c: "entries_for ''COMMAND_CLASS_SENSOR_BINARY'' i self'
                       = [populate ro vid v c]"
    by (auto simp: entries_for_def l)
  have hf: "holds_fields v (populate ro vid v c)"
    by (rule holds_fields_populate [OF rv])
  then have "ccv_value (populate ro vid v c) = x"
    using x by (simp add: holds_fields_def)
  with h calls c hf show ?thesis by simp
qed

theorem binary_sensor_lights_witness:
  "at_most_one_per_key (new_ZWaveDevice (Some ''R''))
   \<and> complete (mesh_value (PyBool True))
   \<and> zwave_room (new_ZWaveDevice (Some ''R'')) = Some ''R''
   \<and> [''R'' \<mapsto> ()] ''R'' = Some ()
   \<and> (\<exists>self' ccv.
         handle_event [''R'' \<mapsto> ()] (ValueChanged (mesh_value (PyBool True)))
           (new_ZWaveDevice (Some ''R''))
           = (Inr (), self', [Set_lights ''R'' (PyBool True)])
       \<and> entries_for ''COMMAND_CLASS_SENSOR_BINARY'' 0 self' = [ccv]
       \<and> ccv_value ccv = PyBool True)"
proof -
  have a: "at_most_one_per_key (new_ZWaveDevice (Some ''R''))"
    by (simp add: at_most_one_per_key_def new_ZWaveDevice_def)
  have c: "complete (mesh_value (PyBool True))"
    by (simp add: complete_def mesh_value_def scenario_value_def)
  have n: "notificationType (ValueChanged v) = Some ''ValueChanged''"
          "valueId (ValueChanged v) = Some v" for v
    by (simp_all add: ValueChanged_def)
  have k: "v_commandClass (mesh_value (PyBool True)) = Some ''COMMAND_CLASS_SENSOR_BINARY''"
          "v_index (mesh_value (PyBool True)) = Some 0"
    by (simp_all add: mesh_value_def scenario_value_def)
  have v: "v_value (mesh_value (PyBool True)) = Some (PyBool True)"
    by (simp add: mesh_value_def)
  have r: "zwave_room (new_ZWaveDevice (Some ''R'')) = Some ''R''" "''R'' \<noteq> []"
          "[''R'' \<mapsto> ()] ''R'' = Some ()"
    by (simp_all add: new_ZWaveDevice_def)
  from binary_sensor_lights
         [where rs = "[''R'' \<mapsto> ()]" and room_id = "''R''" and room_obj = "()"
            and x = "PyBool True" and i = 0 and v = "mesh_value (PyBool True)"
            and e = "ValueChanged (mesh_value (PyBool True))"
            and self = "new_ZWaveDevice (Some ''R'')",
          OF a n c k v r]
  show ?thesis using a c r by blast
qed

section \<open>Driver resolution\<close>

text \<open>
  Claim C4, at the input where the code departs from it. For a new device and an empty
  registry the \<^verbatim>\<open>driver\<close> property does not return the fallback driver: the logging call
  reads \<^verbatim>\<open>__name__\<close> from \<^verbatim>\<open>None\<close> and raises AttributeError, and nothing is logged. The
  function \<^verbatim>\<open>get_driver\<close> does return the fallback class, whose capabilities are empty.
\<close>

theorem driver_unregistered_raises:
  "driver Map.empty (new_ZWaveDevice None) = (Inl AttributeError, new_ZWaveDevice None, [])
   \<and> get_driver Map.empty None None None = Driver
   \<and> get_capabilities Driver = []"
  by (simp add: driver_def dunder_name_def get_driver_def Driver_def new_ZWaveDevice_def)

section \<open>The flush of the event batch\<close>

text \<open>
  Claim C5, at an input where it fails as stated. The one accumulated event carries the
  building id \<^verbatim>\<open>b1\<close>, so all events share one id, but the flush runs under the building id
  \<^verbatim>\<open>b2\<close>: the assertion compares each event with the id of the flush and raises, and
  nothing is delivered on any channel.
\<close>

theorem push_events_other_building:
  "push_events (limit_json_batch length) ''b2'' (Some [(''b1'', ''on'')])
     = (Inl AssertionError, None, [])"
  by (simp add: push_events_def)

text \<open>
  Claim C5 as amended. In a flush of a batch, the assertion raises before any delivery
  when two accumulated events carry different building ids, and more generally when some
  event's building id is not the building id of the flush. When every event carries the
  building id of the flush, the sub-batches that the splitter yields from the events, in
  their order, are the deliveries, all on the channel \<^verbatim>\<open>private-<building id>\<close>. In every
  case, also without a batch, the buffer is \<^verbatim>\<open>None\<close> afterwards.
\<close>

theorem push_events_flush:
  "(\<forall>x\<in>set events. \<forall>y\<in>set events. fst x \<noteq> fst y \<longrightarrow>
        push_events splitter building_id (Some events) = (Inl AssertionError, None, []))
   \<and> (\<forall>x\<in>set events. fst x \<noteq> building_id \<longrightarrow>
        push_events splitter building_id (Some events) = (Inl AssertionError, None, []))
   \<and> ((\<forall>x\<in>set events. fst x = building_id) \<longrightarrow>
        push_events splitter building_id (Some events)
          = (Inr (), None,
             map (\<lambda>batch. (''private-'' @ building_id, batch))
               (splitter (map snd events) 8000)))
   \<and> fst (snd (push_events splitter building_id user_events)) = None"
proof -
  have all: "list_all (\<lambda>(b, e). b = building_id) events
               \<longleftrightarrow> (\<forall>x\<in>set events. fst x = building_id)"
    by (auto simp: list_all_iff)
  have one: "push_events splitter building_id (Some events) = (Inl AssertionError, None, [])"
    if "x \<in> set events" "fst x \<noteq> building_id" for x
    using that by (auto simp: push_events_def all)
  have two: "push_events splitter building_id (Some events) = (Inl AssertionError, None, [])"
    if "x \<in> set events" "y \<in> set events" "fst x \<noteq> fst y" for x y
  proof (cases "fst x = building_id")
    case True
    with that have "fst y \<noteq> building_id" by simp
    with that(2) show ?thesis by (rule one)
  next
    case False
    with that(1) show ?thesis by (rule one)
  qed
  have ok: "push_events splitter building_id (Some events)
          = (Inr (), None,
             map (\<lambda>batch. (''private-'' @ building_id, batch))
               (splitter (map snd events) 8000))"
    if "\<forall>x\<in>set events. fst x = building_id"
    using that by (simp add: push_events_def all)
  have cleared: "fst (snd (push_events splitter building_id user_events)) = None"
    by (simp add: push_events_def Let_def split: option.splits)
  from one two ok cleared show ?thesis by blast
qed

theorem push_events_flush_witness:
  "push_events (limit_json_batch length) ''b1'' (Some [(''b1'', ''on''), (''b2'', ''off'')])
     = (Inl AssertionError, None, [])
   \<and> push_events (limit_json_batch length) ''b1'' (Some [(''b1'', ''on''), (''b1'', ''off'')])
     = (Inr (), None, [(''private-b1'', [''on'', ''off''])])"
  using push_events_flush [of "[(''b1'', ''on''), (''b2'', ''off'')]"
          "limit_json_batch length" "''b1''" None]
        push_events_flush [of "[(''b1'', ''on''), (''b1'', ''off'')]"
          "limit_json_batch length" "''b1''" None]
  by (simp add: limit_json_batch_def)

section \<open>Splitting into sub-batches\<close>

lemma batches_concat: "concat (batches ss m b es) = b @ es"
  by (induction es arbitrary: b) auto

lemma batches_bounded:
  "ss b \<le> m \<Longrightarrow> \<forall>e\<in>set es. ss [e] \<le> m \<Longrightarrow> \<forall>x\<in>set (batches ss m b es). ss x \<le> m"
  by (induction es arbitrary: b) auto

lemma batches_nonempty:
  "b \<noteq> [] \<Longrightarrow> \<forall>x\<in>set (batches ss m b es). x \<noteq> []"
  by (induction es arbitrary: b) auto

lemma batches_not_Nil: "batches ss m b es \<noteq> []"
  by (induction es arbitrary: b) auto

lemma limit_json_batch_concat: "concat (limit_json_batch ss events m) = events"
  by (simp add: limit_json_batch_def batches_concat split: list.splits)

lemma limit_json_batch_bounded:
  assumes "\<forall>e\<in>set events. ss [e] \<le> m"
  shows "\<forall>x\<in>set (limit_json_batch ss events m). ss x \<le> m"
proof (cases events)
  case Nil
  then show ?thesis by (simp add: limit_json_batch_def)
next
  case (Cons e es)
  with assms have "ss [e] \<le> m" "\<forall>e\<in>set es. ss [e] \<le> m" by simp_all
  then have "\<forall>x\<in>set (batches ss m [e] es). ss x \<le> m" by (rule batches_bounded)
  with Cons show ?thesis by (simp add: limit_json_batch_def)
qed

lemma limit_json_batch_nonempty: "\<forall>x\<in>set (limit_json_batch ss events m). x \<noteq> []"
proof (cases events)
  case Nil
  then show ?thesis by (simp add: limit_json_batch_def)
next
  case (Cons e es)
  have "\<forall>x\<in>set (batches ss m [e] es). x \<noteq> []" by (rule batches_nonempty) simp
  with Cons show ?thesis by (simp add: limit_json_batch_def)
qed

text \<open>
  Claim C6, at an input where it fails as stated. A batch of one event whose serialized
  size is 9000 exceeds 8000, and is delivered as one sub-batch of size 9000: not as two or
  more, and not within 8000. (The sizes are the events themselves here, and the size of a
  list is their sum.)
\<close>

theorem oversized_event_one_batch:
  "sum_list [9000::nat] > 8000
   \<and> limit_json_batch sum_list [9000::nat] 8000 = [[9000]]
   \<and> length (limit_json_batch sum_list [9000::nat] 8000) < 2
   \<and> \<not> sum_list [9000::nat] \<le> 8000"
  by (simp add: limit_json_batch_def)

text \<open>
  Claim C6 as amended. When every event of the batch, taken alone, serializes within 8000
  units, the sub-batches are non-empty and each at most 8000 serialized units, their
  concatenation in order is the original sequence of events, and a non-empty batch whose
  serialized size exceeds 8000 is split into two or more sub-batches.
\<close>

theorem limit_json_batch_splits:
  assumes fit: "\<forall>e\<in>set events. serialized_size [e] \<le> 8000"
  shows "concat (limit_json_batch serialized_size events 8000) = events
       \<and> (\<forall>b\<in>set (limit_json_batch serialized_size events 8000).
             b \<noteq> [] \<and> serialized_size b \<le> 8000)
       \<and> (events \<noteq> [] \<and> 8000 < serialized_size events \<longrightarrow>
             2 \<le> length (limit_json_batch serialized_size events 8000))"
proof -
  let ?bs = "limit_json_batch serialized_size events 8000"
  have c: "concat ?bs = events" by (rule limit_json_batch_concat)
  have b: "\<forall>x\<in>set ?bs. serialized_size x \<le> 8000"
    by (rule limit_json_batch_bounded [OF fit])
  have n: "\<forall>x\<in>set ?bs. x \<noteq> []" by (rule limit_json_batch_nonempty)
  have "2 \<le> length ?bs" if ne: "events \<noteq> []" and big: "8000 < serialized_size events"
  proof (rule ccontr)
    assume "\<not> 2 \<le> length ?bs"
    then have "length ?bs = 0 \<or> length ?bs = 1" by arith
    then show False
    proof
      assume "length ?bs = 0"
      with c ne show False by simp
    next
      assume "length ?bs = 1"
      then obtain x where x: "?bs = [x]" by (cases ?bs) auto
      with c have "x = events" by simp
      with b x big show False by simp
    qed
  qed
  with c b n show ?thesis by blast
qed

theorem limit_json_batch_splits_witness:
  "sum_list [3000::nat] \<le> 8000 \<and> sum_list [4000::nat] \<le> 8000
   \<and> sum_list [2000::nat] \<le> 8000 \<and> sum_list [5000::nat] \<le> 8000
   \<and> 8000 < sum_list [3000, 4000, 2000, 5000::nat]
   \<and> limit_json_batch sum_list [3000, 4000, 2000, 5000::nat] 8000
       = [[3000, 4000], [2000, 5000]]
   \<and> concat (limit_json_batch sum_list [3000, 4000, 2000, 5000::nat] 8000)
       = [3000, 4000, 2000, 5000]
   \<and> 2 \<le> length (limit_json_batch sum_list [3000, 4000, 2000, 5000::nat] 8000)"
proof -
  have h: "\<forall>e\<in>set [3000, 4000, 2000, 5000::nat]. sum_list [e] \<le> 8000" by simp
  have v: "limit_json_batch sum_list [3000, 4000, 2000, 5000::nat] 8000
             = [[3000, 4000], [2000, 5000]]"
    by (simp add: limit_json_batch_def)
  from limit_json_batch_splits [OF h] v show ?thesis by simp
qed

section \<open>The OAuth callback and the token exchange\<close>

text \<open>
  Claim C2, at an input where it fails as stated. The callback comes with a code and with
  a state that identifies no stored account. It does not fail with the not-found abort
  (404): it fails with \<^verbatim>\<open>abort(400)\<close>, the same client error as for a missing parameter. The
  stored accounts are unchanged and no request is made.
\<close>

theorem callback_unknown_state_is_400:
  "oauth_redirect_callback (\<lambda>t. example_class) example_format provider example_clock
       (Some ''code-9'') (Some ''forged'') [''state-1'' \<mapsto> linked_account]
     = (Inl (Abort 400), [''state-1'' \<mapsto> linked_account], [])
   \<and> fst (oauth_redirect_callback (\<lambda>t. example_class) example_format provider example_clock
            (Some ''code-9'') (Some ''forged'') [''state-1'' \<mapsto> linked_account])
       \<noteq> Inl (Abort 404)"
  by (simp add: oauth_redirect_callback_def)

text \<open>
  Claim C2 as amended. When the code or the state is absent, and when the state identifies
  no stored account, the callback fails with the client error \<^verbatim>\<open>abort(400)\<close>; in both cases
  the stored accounts are as before (none created, none changed, no code stored) and no
  request for a token exchange is made.
\<close>

theorem callback_rejects:
  "((code_arg = None \<or> state_arg = None) \<longrightarrow>
       oauth_redirect_callback classes format urlopen time_plus code_arg state_arg accounts
         = (Inl (Abort 400), accounts, []))
   \<and> (\<forall>state. state_arg = Some state \<and> accounts state = None \<longrightarrow>
       oauth_redirect_callback classes format urlopen time_plus code_arg state_arg accounts
         = (Inl (Abort 400), accounts, []))"
  by (auto simp: oauth_redirect_callback_def split: option.splits)

theorem callback_rejects_witness:
  "oauth_redirect_callback (\<lambda>t. example_class) example_format provider example_clock
       None (Some ''state-1'') [''state-1'' \<mapsto> linked_account]
     = (Inl (Abort 400), [''state-1'' \<mapsto> linked_account], [])
   \<and> [''state-1'' \<mapsto> linked_account] ''forged'' = None
   \<and> oauth_redirect_callback (\<lambda>t. example_class) example_format provider example_clock
       (Some ''code-9'') (Some ''forged'') [''state-1'' \<mapsto> linked_account]
     = (Inl (Abort 400), [''state-1'' \<mapsto> linked_account], [])"
  using callback_rejects [of None "Some ''state-1''" "\<lambda>t. example_class" example_format
          provider example_clock "[''state-1'' \<mapsto> linked_account]"]
        callback_rejects [of "Some ''code-9''" "Some ''forged''" "\<lambda>t. example_class"
          example_format provider example_clock "[''state-1'' \<mapsto> linked_account]"]
  by simp

lemma example_token_url:
  "ACCESS_TOKEN_URL example_class
     = Some ''https://provider.example/token?code=%(auth_code)s&type=%(grant_type)s''"
  by (simp add: example_class_def)

lemma example_refresh_data: "get_refresh_data example_class self = []"
  by (simp add: example_class_def Account_class_def)

lemma example_url:
  "example_format ''https://provider.example/token?code=%(auth_code)s&type=%(grant_type)s''
       (parameters example_class linked_account)
     = Inr ''https://provider.example/token?code=code-1&type=authorization_code''"
  by (simp add: example_format_def parameters_def linked_account_def prepend_def str_def)

lemma misnamed_url:
  "example_format ''https://provider.example/token?code=%(code)s''
       (parameters misnamed_class linked_account)
     = Inl KeyError"
  by (simp add: example_format_def parameters_def prepend_def)

text \<open>
  Claim C8, at an input where it fails as stated. The account holds the refresh token
  \<^verbatim>\<open>refresh-1\<close>, and its class inherits \<^verbatim>\<open>_get_refresh_data\<close>. The one request of the
  refresh has the url formatted with the stored auth code and the grant type
  \<^verbatim>\<open>authorization_code\<close>, its data is empty, and the refresh token is in neither. The
  response has no refresh token, and the stored one is replaced by \<^verbatim>\<open>None\<close>.
\<close>

theorem refresh_sends_auth_code:
  "refresh_access_token example_class example_format provider example_clock linked_account
     = (Inr (),
        linked_account\<lparr>access_token := Some ''token-2'', expires := Some 5600,
                       refresh_token := None\<rparr>,
        [\<lparr>request_url = ''https://provider.example/token?code=code-1&type=authorization_code'',
          request_data = []\<rparr>])"
  by (simp add: refresh_access_token_def example_token_url example_url example_refresh_data
        provider_def store_tokens_def string_property_def example_clock_def)

text \<open>
  Claim C8 as amended. The refresh formats the token url of the class with the client id,
  the stored auth code, the client secret and the grant type \<^verbatim>\<open>authorization_code\<close>; the
  stored refresh token is not among the parameters. When the class has no token url, or
  the formatting raises, the exception reaches the caller, the account is unchanged and no
  request is made. Otherwise exactly one request is made, whatever the outcome, with the
  formatted url and the data that \<^verbatim>\<open>_get_refresh_data\<close> of the class returns. When the
  response is an object with a string \<^verbatim>\<open>access_token\<close> and an \<^verbatim>\<open>expires_in\<close> for which
  \<^verbatim>\<open>time.time() + expires_in\<close> evaluates, the access token is stored, \<open>expires\<close> is that sum
  and the refresh token is the one of the response, or \<^verbatim>\<open>None\<close> when the response has
  none. When there is no response (URLError), an error response (HTTPError, or ValueError
  when its body is not JSON), a body that is not JSON (ValueError), a JSON body that is no
  object (TypeError) or an object without \<^verbatim>\<open>access_token\<close> (KeyError), the exception reaches
  the caller with the account unchanged. When the object has a string \<^verbatim>\<open>access_token\<close> but
  no \<^verbatim>\<open>expires_in\<close> (KeyError), or the sum raises, the exception reaches the caller with the
  access token already replaced and nothing else changed.
\<close>

theorem refresh_exchange:
  "parameters cls self
     = [(''client_id'', CLIENT_ID cls), (''auth_code'', auth_code self),
        (''client_secret'', CLIENT_SECRET cls), (''grant_type'', Some ''authorization_code'')]
   \<and> (ACCESS_TOKEN_URL cls = None \<longrightarrow>
        refresh_access_token cls format urlopen time_plus self = (Inl TypeError, self, []))
   \<and> (ACCESS_TOKEN_URL cls = Some template
        \<and> format template (parameters cls self) = Inl e \<longrightarrow>
        refresh_access_token cls format urlopen time_plus self = (Inl e, self, []))
   \<and> (ACCESS_TOKEN_URL cls = Some template
        \<and> format template (parameters cls self) = Inr url
        \<and> req = \<lparr>request_url = url, request_data = get_refresh_data cls self\<rparr> \<longrightarrow>
        (\<exists>r self'. refresh_access_token cls format urlopen time_plus self = (r, self', [req]))
      \<and> (urlopen req = No_response \<longrightarrow>
           refresh_access_token cls format urlopen time_plus self
             = (Inl URLError, self, [req]))
      \<and> (urlopen req = Error_response Malformed \<longrightarrow>
           refresh_access_token cls format urlopen time_plus self
             = (Inl ValueError, self, [req]))
      \<and> (urlopen req = Error_response Json_other
           \<or> urlopen req = Error_response (Json_object result) \<longrightarrow>
           refresh_access_token cls format urlopen time_plus self
             = (Inl HTTPError, self, [req]))
      \<and> (urlopen req = Response Malformed \<longrightarrow>
           refresh_access_token cls format urlopen time_plus self
             = (Inl ValueError, self, [req]))
      \<and> (urlopen req = Response Json_other \<longrightarrow>
           refresh_access_token cls format urlopen time_plus self
             = (Inl TypeError, self, [req]))
      \<and> (urlopen req = Response (Json_object result)
           \<and> map_of result ''access_token'' = None \<longrightarrow>
           refresh_access_token cls format urlopen time_plus self
             = (Inl KeyError, self, [req]))
      \<and> (urlopen req = Response (Json_object result)
           \<and> map_of result ''access_token'' = Some (PyStr token)
           \<and> map_of result ''expires_in'' = None \<longrightarrow>
           refresh_access_token cls format urlopen time_plus self
             = (Inl KeyError, self\<lparr>access_token := Some token\<rparr>, [req]))
      \<and> (urlopen req = Response (Json_object result)
           \<and> map_of result ''access_token'' = Some (PyStr token)
           \<and> map_of result ''expires_in'' = Some x
           \<and> time_plus x = Inl e' \<longrightarrow>
           refresh_access_token cls format urlopen time_plus self
             = (Inl e', self\<lparr>access_token := Some token\<rparr>, [req]))
      \<and> (urlopen req = Response (Json_object result)
           \<and> map_of result ''access_token'' = Some (PyStr token)
           \<and> map_of result ''expires_in'' = Some x
           \<and> time_plus x = Inr t
           \<and> map_of result ''refresh_token'' = Some (PyStr rt) \<longrightarrow>
           refresh_access_token cls format urlopen time_plus self
             = (Inr (),
                self\<lparr>access_token := Some token, expires := Some t,
                     refresh_token := Some rt\<rparr>,
                [req]))
      \<and> (urlopen req = Response (Json_object result)
           \<and> map_of result ''access_token'' = Some (PyStr token)
           \<and> map_of result ''expires_in'' = Some x
           \<and> time_plus x = Inr t
           \<and> (map_of result ''refresh_token'' = None
              \<or> map_of result ''refresh_token'' = Some PyNone) \<longrightarrow>
           refresh_access_token cls format urlopen time_plus self
             = (Inr (),
                self\<lparr>access_token := Some token, expires := Some t, refresh_token := None\<rparr>,
                [req])))"
proof -
  let ?R = "refresh_access_token cls format urlopen time_plus self"
  have p: "parameters cls self
     = [(''client_id'', CLIENT_ID cls), (''auth_code'', auth_code self),
        (''client_secret'', CLIENT_SECRET cls), (''grant_type'', Some ''authorization_code'')]"
    by (simp add: parameters_def)
  have none: "ACCESS_TOKEN_URL cls = None \<longrightarrow> ?R = (Inl TypeError, self, [])"
    by (simp add: refresh_access_token_def)
  have raised: "ACCESS_TOKEN_URL cls = Some template
        \<and> format template (parameters cls self) = Inl e \<longrightarrow> ?R = (Inl e, self, [])"
    by (simp add: refresh_access_token_def)
  have one: "\<exists>r self'. ?R = (r, self', [req])"
    if "ACCESS_TOKEN_URL cls = Some template"
       "format template (parameters cls self) = Inr url"
       "req = \<lparr>request_url = url, request_data = get_refresh_data cls self\<rparr>"
    using that
    by (auto simp: refresh_access_token_def Let_def
             split: response.splits body.splits prod.splits)
  have no_response: "?R = (Inl URLError, self, [req])"
    if "ACCESS_TOKEN_URL cls = Some template"
       "format template (parameters cls self) = Inr url"
       "req = \<lparr>request_url = url, request_data = get_refresh_data cls self\<rparr>"
       "urlopen req = No_response"
    using that by (simp add: refresh_access_token_def Let_def)
  have error_malformed: "?R = (Inl ValueError, self, [req])"
    if "ACCESS_TOKEN_URL cls = Some template"
       "format template (parameters cls self) = Inr url"
       "req = \<lparr>request_url = url, request_data = get_refresh_data cls self\<rparr>"
       "urlopen req = Error_response Malformed"
    using that by (simp add: refresh_access_token_def Let_def)
  have error_json: "?R = (Inl HTTPError, self, [req])"
    if "ACCESS_TOKEN_URL cls = Some template"
       "format template (parameters cls self) = Inr url"
       "req = \<lparr>request_url = url, request_data = get_refresh_data cls self\<rparr>"
       "urlopen req = Error_response Json_other
        \<or> urlopen req = Error_response (Json_object result)"
    using that by (auto simp: refresh_access_token_def Let_def)
  have malformed: "?R = (Inl ValueError, self, [req])"
    if "ACCESS_TOKEN_URL cls = Some template"
       "format template (parameters cls self) = Inr url"
       "req = \<lparr>request_url = url, request_data = get_refresh_data cls self\<rparr>"
       "urlopen req = Response Malformed"
    using that by (simp add: refresh_access_token_def Let_def)
  have other: "?R = (Inl TypeError, self, [req])"
    if "ACCESS_TOKEN_URL cls = Some template"
       "format template (parameters cls self) = Inr url"
       "req = \<lparr>request_url = url, request_data = get_refresh_data cls self\<rparr>"
       "urlopen req = Response Json_other"
    using that by (simp add: refresh_access_token_def Let_def)
  have no_token: "?R = (Inl KeyError, self, [req])"
    if "ACCESS_TOKEN_URL cls = Some template"
       "format template (parameters cls self) = Inr url"
       "req = \<lparr>request_url = url, request_data = get_refresh_data cls self\<rparr>"
       "urlopen req = Response (Json_object result)"
       "map_of result ''access_token'' = None"
    using that by (simp add: refresh_access_token_def Let_def store_tokens_def)
  have no_expiry: "?R = (Inl KeyError, self\<lparr>access_token := Some token\<rparr>, [req])"
    if "ACCESS_TOKEN_URL cls = Some template"
       "format template (parameters cls self) = Inr url"
       "req = \<lparr>request_url = url, request_data = get_refresh_data cls self\<rparr>"
       "urlopen req = Response (Json_object result)"
       "map_of result ''access_token'' = Some (PyStr token)"
       "map_of result ''expires_in'' = None"
    using that
    by (simp add: refresh_access_token_def Let_def store_tokens_def string_property_def)
  have no_sum: "?R = (Inl e', self\<lparr>access_token := Some token\<rparr>, [req])"
    if "ACCESS_TOKEN_URL cls = Some template"
       "format template (parameters cls self) = Inr url"
       "req = \<lparr>request_url = url, request_data = get_refresh_data cls self\<rparr>"
       "urlopen req = Response (Json_object result)"
       "map_of result ''access_token'' = Some (PyStr token)"
       "map_of result ''expires_in'' = Some x"
       "time_plus x = Inl e'"
    using that
    by (simp add: refresh_access_token_def Let_def store_tokens_def string_property_def)
  have stored: "?R = (Inr (),
                self\<lparr>access_token := Some token, expires := Some t,
                     refresh_token := Some rt\<rparr>,
                [req])"
    if "ACCESS_TOKEN_URL cls = Some template"
       "format template (parameters cls self) = Inr url"
       "req = \<lparr>request_url = url, request_data = get_refresh_data cls self\<rparr>"
       "urlopen req = Response (Json_object result)"
       "map_of result ''access_token'' = Some (PyStr token)"
       "map_of result ''expires_in'' = Some x"
       "time_plus x = Inr t"
       "map_of result ''refresh_token'' = Some (PyStr rt)"
    using that
    by (simp add: refresh_access_token_def Let_def store_tokens_def string_property_def)
  have cleared: "?R = (Inr (),
                self\<lparr>access_token := Some token, expires := Some t, refresh_token := None\<rparr>,
                [req])"
    if "ACCESS_TOKEN_URL cls = Some template"
       "format template (parameters cls self) = Inr url"
       "req = \<lparr>request_url = url, request_data = get_refresh_data cls self\<rparr>"
       "urlopen req = Response (Json_object result)"
       "map_of result ''access_token'' = Some (PyStr token)"
       "map_of result ''expires_in'' = Some x"
       "time_plus x = Inr t"
       "map_of result ''refresh_token'' = None
        \<or> map_of result ''refresh_token'' = Some PyNone"
    using that
    by (auto simp: refresh_access_token_def Let_def store_tokens_def string_property_def)
  show ?thesis
    using p none raised one no_response error_malformed error_json malformed other no_token
      no_expiry no_sum stored cleared
    by blast
qed

theorem refresh_exchange_witness:
  "ACCESS_TOKEN_URL example_class
     = Some ''https://provider.example/token?code=%(auth_code)s&type=%(grant_type)s''
   \<and> example_format ''https://provider.example/token?code=%(auth_code)s&type=%(grant_type)s''
         (parameters example_class linked_account)
       = Inr ''https://provider.example/token?code=code-1&type=authorization_code''
   \<and> refresh_access_token example_class example_format provider example_clock linked_account
       = (Inr (),
          linked_account\<lparr>access_token := Some ''token-2'', expires := Some 5600,
                         refresh_token := None\<rparr>,
          [\<lparr>request_url = ''https://provider.example/token?code=code-1&type=authorization_code'',
            request_data = []\<rparr>])
   \<and> refresh_access_token example_class example_format (\<lambda>req. No_response) example_clock
         linked_account
       = (Inl URLError, linked_account,
          [\<lparr>request_url = ''https://provider.example/token?code=code-1&type=authorization_code'',
            request_data = []\<rparr>])
   \<and> refresh_access_token example_class example_format terse_provider example_clock
         linked_account
       = (Inl KeyError, linked_account\<lparr>access_token := Some ''token-2''\<rparr>,
          [\<lparr>request_url = ''https://provider.example/token?code=code-1&type=authorization_code'',
            request_data = []\<rparr>])
   \<and> example_format ''https://provider.example/token?code=%(code)s''
         (parameters misnamed_class linked_account)
       = Inl KeyError
   \<and> refresh_access_token misnamed_class example_format provider example_clock linked_account
       = (Inl KeyError, linked_account, [])"
proof -
  let ?T = "''https://provider.example/token?code=%(auth_code)s&type=%(grant_type)s''"
  let ?U = "''https://provider.example/token?code=code-1&type=authorization_code''"
  let ?req = "\<lparr>request_url = ?U, request_data = []\<rparr>"
  have u: "ACCESS_TOKEN_URL example_class = Some ?T"
    by (simp add: example_class_def)
  have m: "ACCESS_TOKEN_URL misnamed_class = Some ''https://provider.example/token?code=%(code)s''"
    by (simp add: misnamed_class_def)
  have d: "get_refresh_data example_class linked_account = []"
    by (simp add: example_class_def Account_class_def)
  have r: "?req = \<lparr>request_url = ?U, request_data = get_refresh_data example_class linked_account\<rparr>"
    by (simp add: d)
  have success:
    "refresh_access_token example_class example_format provider example_clock linked_account
       = (Inr (),
          linked_account\<lparr>access_token := Some ''token-2'', expires := Some 5600,
                         refresh_token := None\<rparr>,
          [?req])"
    using refresh_exchange
            [where cls = example_class and self = linked_account and format = example_format
               and urlopen = provider and time_plus = example_clock and template = ?T
               and url = ?U and req = ?req
               and result = "[(''access_token'', PyStr ''token-2''), (''expires_in'', PyInt 3600)]"
               and token = "''token-2''" and x = "PyInt 3600" and t = 5600]
          u example_url r
    by (simp add: provider_def example_clock_def)
  have unreachable:
    "refresh_access_token example_class example_format (\<lambda>req. No_response) example_clock
         linked_account
       = (Inl URLError, linked_account, [?req])"
    using refresh_exchange
            [where cls = example_class and self = linked_account and format = example_format
               and urlopen = "\<lambda>req. No_response" and time_plus = example_clock
               and template = ?T and url = ?U and req = ?req]
          u example_url r
    by simp
  have partial:
    "refresh_access_token example_class example_format terse_provider example_clock
         linked_account
       = (Inl KeyError, linked_account\<lparr>access_token := Some ''token-2''\<rparr>, [?req])"
    using refresh_exchange
            [where cls = example_class and self = linked_account and format = example_format
               and urlopen = terse_provider and time_plus = example_clock and template = ?T
               and url = ?U and req = ?req
               and result = "[(''access_token'', PyStr ''token-2'')]"
               and token = "''token-2''"]
          u example_url r
    by (simp add: terse_provider_def)
  have unformatted:
    "refresh_access_token misnamed_class example_format provider example_clock linked_account
       = (Inl KeyError, linked_account, [])"
    using refresh_exchange
            [where cls = misnamed_class and self = linked_account and format = example_format
               and urlopen = provider and time_plus = example_clock
               and template = "''https://provider.example/token?code=%(code)s''"
               and e = KeyError]
          m misnamed_url
    by simp
  from u example_url success unreachable partial misnamed_url unformatted
  show ?thesis by simp
qed

end
